theory Spec2Isabelle
  imports Complex_Main "HOL-Library.Log_Nat"
begin

section \<open>The wallet conversation of \<^verbatim>\<open>src/commands/wallet.ts\<close>\<close>

text \<open>
  The file drives one conversation per Discord user: network selection, wallet creation or
  import, and the wallet-actions menu with its send flow. It owns one map,
  \<^verbatim>\<open>userWalletStates\<close>, and reads and writes a second one, \<^verbatim>\<open>userSettings\<close>.
  Everything else (the Discord transport, the wallet operations, the rate limiter, the
  validators) is called, not defined, by the file.

  The embedding keeps the two maps in a \<open>world\<close> that every function takes and returns.
  What the outside answers to a call is read from an \<open>env\<close>: the answer to the k-th call
  made so far is the value of the matching field at \<open>k\<close>. Each \<^verbatim>\<open>await\<close> has three
  outcomes: the promise resolves, it rejects (the \<^verbatim>\<open>throw\<close> of the source), or it is
  still unresolved when the observation ends. What the code does to the outside is appended
  to a trace.
\<close>

subsection \<open>Data\<close>

datatype WalletState =
    IDLE
  | NETWORK_SELECTION
  | WALLET_OPTIONS
  | WALLET_ACTIONS
  | SENDING_KASPA
  | CHECKING_BALANCE
  | VIEWING_HISTORY
  | IMPORTING_WALLET

type_synonym userId = string
type_synonym Network = string

text \<open>
  The session record of \<^verbatim>\<open>utils/userSettings\<close>, with the fields this file reads or
  writes. A field that the object literal leaves out is \<open>None\<close>.
\<close>

record UserSession =
  network :: "Network option"
  address :: "string option"
  lastActivity :: nat

datatype ChannelType = DM | GuildText

record Message =
  author :: userId
  content :: string
  channelType :: ChannelType

record MessageComponentInteraction =
  customId :: string
  user :: userId

record WalletInfo =
  walletAddress :: string
  privateKey :: string
  mnemonic :: string

datatype error =
    AppError string
  | TransportError
  | CollectorError
  | WalletError
  | TransactionError
  | NetworkError
  | RangeError

text \<open>
  An embed is recorded by its title, its fields and the buttons of its action rows, each
  button as (customId, label); colour, description and footer are left out.
\<close>

datatype event =
    DMCreated userId
  | Replied string
  | Sent string
  | SentEmbed string "(string \<times> string) list" "(string \<times> string) list"
  | AwaitedComponent "string list" userId nat
  | AwaitedMessages userId nat
  | DeferredUpdate
  | MessageDeleted
  | MessagesFetched
  | StateSet userId WalletState
  | StateDeleted userId
  | SettingsSet userId UserSession
  | GenerateNewWallet userId Network
  | ImportWalletFromPrivateKey string userId Network
  | SendKaspa userId int string Network
  | GetBalance userId "Network option"
  | GetTransactionHistory string "Network option"
  | ErrorHandled error string

record world =
  userWalletStates :: "userId \<rightharpoonup> WalletState"
  userSettings :: "userId \<rightharpoonup> UserSession"
  tick :: nat
  trace :: "event list"

datatype 'a reply = Resolved 'a | Rejected | Unresolved

text \<open>
  The outside. \<open>delivery\<close> answers the calls that return nothing the code uses
  (\<^verbatim>\<open>channel.send\<close>, \<^verbatim>\<open>message.reply\<close>, \<^verbatim>\<open>createDM\<close>, \<^verbatim>\<open>deferUpdate\<close>,
  \<^verbatim>\<open>message.delete\<close>, \<^verbatim>\<open>retryableRequest\<close>); \<open>components\<close> and \<open>inbox\<close> give what
  arrives on a collector, each arrival with its delay in milliseconds; \<open>rateLimit\<close> is
  \<^verbatim>\<open>checkRateLimit\<close>, \<open>clock\<close> is \<^verbatim>\<open>Date.now\<close>. The validators and
  \<^verbatim>\<open>sanitizeInput\<close> are the pure functions of \<^verbatim>\<open>utils/inputValidation\<close>, taken as
  parameters.
\<close>

record env =
  delivery :: "nat \<Rightarrow> unit reply"
  components :: "nat \<Rightarrow> (nat \<times> MessageComponentInteraction) list reply"
  inbox :: "nat \<Rightarrow> (nat \<times> Message) list reply"
  rateLimit :: "nat \<Rightarrow> bool"
  clock :: "nat \<Rightarrow> nat"
  generated :: "nat \<Rightarrow> WalletInfo reply"
  imported :: "nat \<Rightarrow> WalletInfo reply"
  transaction :: "nat \<Rightarrow> string reply"
  balances :: "nat \<Rightarrow> (string \<times> string list) reply"
  botMessages :: "nat \<Rightarrow> nat reply"
  validateAddress :: "string \<Rightarrow> bool"
  validateAmount :: "string \<Rightarrow> bool"
  validatePrivateKey :: "string \<Rightarrow> bool"
  validateNetwork :: "string \<Rightarrow> bool"
  sanitizeInput :: "string \<Rightarrow> string"

subsection \<open>Control: return, throw, await\<close>

datatype 'a result = Returned 'a | Threw error | Suspended

type_synonym 'a prog = "world \<Rightarrow> 'a result \<times> world"

definition ret :: "'a \<Rightarrow> 'a prog" where
  "ret a = (\<lambda>w. (Returned a, w))"

definition throw :: "error \<Rightarrow> 'a prog" where
  "throw e = (\<lambda>w. (Threw e, w))"

definition suspend :: "'a prog" where
  "suspend = (\<lambda>w. (Suspended, w))"

definition then_do :: "'a prog \<Rightarrow> ('a \<Rightarrow> 'b prog) \<Rightarrow> 'b prog" where
  "then_do m f = (\<lambda>w. case m w of
      (Returned a, w') \<Rightarrow> f a w'
    | (Threw e, w') \<Rightarrow> (Threw e, w')
    | (Suspended, w') \<Rightarrow> (Suspended, w'))"

definition try_catch :: "'a prog \<Rightarrow> (error \<Rightarrow> 'a prog) \<Rightarrow> 'a prog" where
  "try_catch m h = (\<lambda>w. case m w of
      (Returned a, w') \<Rightarrow> (Returned a, w')
    | (Threw e, w') \<Rightarrow> h e w'
    | (Suspended, w') \<Rightarrow> (Suspended, w'))"

definition emit :: "event \<Rightarrow> unit prog" where
  "emit e = (\<lambda>w. (Returned (), w\<lparr>trace := trace w @ [e]\<rparr>))"

definition ask :: "(nat \<Rightarrow> 'a) \<Rightarrow> 'a prog" where
  "ask f = (\<lambda>w. (Returned (f (tick w)), w\<lparr>tick := Suc (tick w)\<rparr>))"

definition await :: "(nat \<Rightarrow> 'a reply) \<Rightarrow> error \<Rightarrow> 'a prog" where
  "await f e = then_do (ask f) (\<lambda>r. case r of
      Resolved a \<Rightarrow> ret a
    | Rejected \<Rightarrow> throw e
    | Unresolved \<Rightarrow> suspend)"

text \<open>A transport call: the effect is recorded, then the call is awaited.\<close>

definition deliver :: "env \<Rightarrow> event \<Rightarrow> unit prog" where
  "deliver E e = then_do (emit e) (\<lambda>_. await (delivery E) TransportError)"

text \<open>
  \<^verbatim>\<open>message.delete().catch(error => Logger.error(...))\<close>: a rejection is logged and
  swallowed.
\<close>

definition delete_quietly :: "env \<Rightarrow> unit prog" where
  "delete_quietly E = try_catch (deliver E MessageDeleted) (\<lambda>_. ret ())"

text \<open>
  \<^verbatim>\<open>awaitMessageComponent({ filter, time })\<close>: resolves with the first arrival that passes
  the filter before the deadline and rejects when there is none. All four filters of the file
  accept a list of custom ids from one user.
\<close>

definition first_component ::
  "string list \<Rightarrow> userId \<Rightarrow> nat \<Rightarrow> (nat \<times> MessageComponentInteraction) list
     \<Rightarrow> MessageComponentInteraction option" where
  "first_component ids uid time arrivals =
     map_option snd (find (\<lambda>(t, i). t < time \<and> customId i \<in> set ids \<and> user i = uid) arrivals)"

definition awaitMessageComponent ::
  "env \<Rightarrow> string list \<Rightarrow> userId \<Rightarrow> nat \<Rightarrow> MessageComponentInteraction prog" where
  "awaitMessageComponent E ids uid time =
     then_do (emit (AwaitedComponent ids uid time)) (\<lambda>_.
     then_do (await (components E) CollectorError) (\<lambda>arrivals.
       case first_component ids uid time arrivals of
         Some i \<Rightarrow> ret i
       | None \<Rightarrow> throw CollectorError))"

text \<open>
  \<^verbatim>\<open>awaitMessages({ filter, max: 1, time, errors: ['time'] })\<close> followed by
  \<^verbatim>\<open>.first()?.content || ''\<close>: the content of the first message that passes the filter
  before the deadline.
\<close>

definition first_message :: "(Message \<Rightarrow> bool) \<Rightarrow> nat \<Rightarrow> (nat \<times> Message) list \<Rightarrow> string option" where
  "first_message accept time arrivals =
     map_option (content \<circ> snd) (find (\<lambda>(t, m). t < time \<and> accept m) arrivals)"

definition awaitMessages :: "env \<Rightarrow> userId \<Rightarrow> (Message \<Rightarrow> bool) \<Rightarrow> nat \<Rightarrow> string prog" where
  "awaitMessages E uid accept time =
     then_do (emit (AwaitedMessages uid time)) (\<lambda>_.
     then_do (await (inbox E) CollectorError) (\<lambda>arrivals.
       case first_message accept time arrivals of
         Some text \<Rightarrow> ret text
       | None \<Rightarrow> throw CollectorError))"

subsection \<open>The two maps\<close>

definition userWalletStates_get :: "userId \<Rightarrow> WalletState option prog" where
  "userWalletStates_get uid = (\<lambda>w. (Returned (userWalletStates w uid), w))"

definition userWalletStates_set :: "userId \<Rightarrow> WalletState \<Rightarrow> unit prog" where
  "userWalletStates_set uid s = (\<lambda>w. (Returned (),
     w\<lparr>userWalletStates := (userWalletStates w)(uid \<mapsto> s), trace := trace w @ [StateSet uid s]\<rparr>))"

definition userWalletStates_delete :: "userId \<Rightarrow> unit prog" where
  "userWalletStates_delete uid = (\<lambda>w. (Returned (),
     w\<lparr>userWalletStates := (userWalletStates w)(uid := None), trace := trace w @ [StateDeleted uid]\<rparr>))"

definition userSettings_get :: "userId \<Rightarrow> UserSession option prog" where
  "userSettings_get uid = (\<lambda>w. (Returned (userSettings w uid), w))"

definition userSettings_set :: "userId \<Rightarrow> UserSession \<Rightarrow> unit prog" where
  "userSettings_set uid s = (\<lambda>w. (Returned (),
     w\<lparr>userSettings := (userSettings w)(uid \<mapsto> s), trace := trace w @ [SettingsSet uid s]\<rparr>))"

text \<open>JavaScript truthiness of an optional string: \<^verbatim>\<open>undefined\<close> and \<^verbatim>\<open>''\<close> are falsy.\<close>

fun truthy :: "string option \<Rightarrow> bool" where
  "truthy None = False"
| "truthy (Some s) = (s \<noteq> [])"

subsection \<open>Numbers: \<^verbatim>\<open>BigInt(parseFloat(amount) * 1e8)\<close>\<close>

text \<open>
  A JavaScript number is an IEEE 754 binary64 value: not a number, an infinity, or a finite
  rational with a 53-bit significand. \<open>round_double\<close> is rounding to nearest, ties to even,
  of an exact rational; \<^verbatim>\<open>parseFloat\<close> and \<^verbatim>\<open>*\<close> round their exact result this way.
  The sign of zero is not kept: \<^verbatim>\<open>BigInt\<close> does not see it.
\<close>

datatype number = NaN | Infinity bool | Finite rat

definition pow2 :: "int \<Rightarrow> rat" where
  "pow2 k = (if 0 \<le> k then 2 ^ nat k else 1 / 2 ^ nat (- k))"

definition ilog2 :: "rat \<Rightarrow> int" where
  "ilog2 q = (case quotient_of q of (a, b) \<Rightarrow>
     (let k = bitlen a - bitlen b in if pow2 k \<le> q then k else k - 1))"

definition round_half_even :: "rat \<Rightarrow> int" where
  "round_half_even q =
     (let f = \<lfloor>q\<rfloor>; d = q - of_int f
      in if d < 1 / 2 then f else if 1 / 2 < d then f + 1 else if even f then f else f + 1)"

definition round_double :: "rat \<Rightarrow> number" where
  "round_double q =
     (if q = 0 then Finite 0
      else let a = \<bar>q\<bar>;
               e = max (ilog2 a - 52) (- 1074);
               v = of_int (round_half_even (a / pow2 e)) * pow2 e
           in if pow2 1024 \<le> v then Infinity (q < 0)
              else Finite (if q < 0 then - v else v))"

definition times :: "number \<Rightarrow> number \<Rightarrow> number" where
  "times x y = (case (x, y) of
      (Finite a, Finite b) \<Rightarrow> round_double (a * b)
    | (Finite a, Infinity s) \<Rightarrow> (if a = 0 then NaN else Infinity (s \<noteq> (a < 0)))
    | (Infinity s, Finite b) \<Rightarrow> (if b = 0 then NaN else Infinity (s \<noteq> (b < 0)))
    | (Infinity s, Infinity t) \<Rightarrow> Infinity (s \<noteq> t)
    | _ \<Rightarrow> NaN)"

text \<open>\<^verbatim>\<open>BigInt(x)\<close> throws a RangeError unless \<open>x\<close> is an integral number.\<close>

definition BigInt :: "number \<Rightarrow> int option" where
  "BigInt x = (case x of
      Finite q \<Rightarrow> (if q = of_int \<lfloor>q\<rfloor> then Some \<lfloor>q\<rfloor> else None)
    | _ \<Rightarrow> None)"

text \<open>
  \<^verbatim>\<open>parseFloat\<close>: leading white space is skipped, then the longest prefix that is a
  decimal literal (sign, digits, fraction, exponent, or \<^verbatim>\<open>Infinity\<close>) is read; with no
  such prefix the result is NaN.
\<close>

definition is_digit :: "char \<Rightarrow> bool" where
  "is_digit c = (c \<in> set ''0123456789'')"

definition digit_val :: "char \<Rightarrow> nat" where
  "digit_val c = of_char c - 48"

definition digits_val :: "string \<Rightarrow> nat" where
  "digits_val ds = foldl (\<lambda>n c. 10 * n + digit_val c) 0 ds"

definition is_space :: "char \<Rightarrow> bool" where
  "is_space c = (of_char c \<in> {9, 10, 11, 12, 13, 32 :: nat})"

definition pow10 :: "int \<Rightarrow> rat" where
  "pow10 k = (if 0 \<le> k then 10 ^ nat k else 1 / 10 ^ nat (- k))"

definition exponent_part :: "string \<Rightarrow> int" where
  "exponent_part s = (case s of
      c # r \<Rightarrow>
        (if c = CHR ''e'' \<or> c = CHR ''E'' then
           (case r of
              d # r' \<Rightarrow>
                (if d = CHR ''-'' then (if takeWhile is_digit r' = [] then 0
                                        else - int (digits_val (takeWhile is_digit r')))
                 else if d = CHR ''+'' then int (digits_val (takeWhile is_digit r'))
                 else int (digits_val (takeWhile is_digit r)))
            | [] \<Rightarrow> 0)
         else 0)
    | [] \<Rightarrow> 0)"

definition unsigned_literal :: "string \<Rightarrow> rat option" where
  "unsigned_literal s =
     (let ip = takeWhile is_digit s; r = dropWhile is_digit s
      in case r of
           c # r' \<Rightarrow>
             (if c = CHR ''.'' then
                (let fp = takeWhile is_digit r'; r'' = dropWhile is_digit r'
                 in if ip = [] \<and> fp = [] then None
                    else Some ((of_nat (digits_val ip) + of_nat (digits_val fp) * pow10 (- int (length fp)))
                               * pow10 (exponent_part r'')))
              else if ip = [] then None
              else Some (of_nat (digits_val ip) * pow10 (exponent_part r)))
         | [] \<Rightarrow> (if ip = [] then None else Some (of_nat (digits_val ip))))"

definition unsigned_number :: "string \<Rightarrow> number" where
  "unsigned_number s =
     (if take 8 s = ''Infinity'' then Infinity False
      else case unsigned_literal s of None \<Rightarrow> NaN | Some q \<Rightarrow> round_double q)"

definition negate :: "number \<Rightarrow> number" where
  "negate x = (case x of NaN \<Rightarrow> NaN | Infinity s \<Rightarrow> Infinity (\<not> s) | Finite q \<Rightarrow> Finite (- q))"

definition parseFloat :: "string \<Rightarrow> number" where
  "parseFloat s = (case dropWhile is_space s of
      c # r \<Rightarrow>
        (if c = CHR ''-'' then negate (unsigned_number r)
         else if c = CHR ''+'' then unsigned_number r
         else unsigned_number (c # r))
    | [] \<Rightarrow> NaN)"

definition minor_units :: "string \<Rightarrow> int option" where
  "minor_units amount = BigInt (times (parseFloat amount) (Finite 100000000))"

subsection \<open>The collaborators\<close>

text \<open>
  \<^verbatim>\<open>checkRateLimit(userId, key)\<close> is answered by the environment.
  \<^verbatim>\<open>getRateLimitRemainingTime\<close> only feeds the text of the error and is left out.
\<close>

definition checkRateLimit :: "env \<Rightarrow> userId \<Rightarrow> string \<Rightarrow> bool prog" where
  "checkRateLimit E uid key = ask (rateLimit E)"

text \<open>
  Modelled from the spec: \<^verbatim>\<open>handleError\<close> of \<^verbatim>\<open>utils/errorHandler\<close> is not in the
  sources. The spec has every error logged and surfaced to the user, and a failure while
  delivering the message logged and swallowed: the call records the error with the place that
  caught it and never throws.
\<close>

definition handleError :: "error \<Rightarrow> ChannelType \<Rightarrow> string \<Rightarrow> unit prog" where
  "handleError e channel place = emit (ErrorHandled e place)"

text \<open>
  Modelled from the spec: \<^verbatim>\<open>generateNewWallet\<close> and \<^verbatim>\<open>importWalletFromPrivateKey\<close>
  are not in the sources. The spec has them return the wallet or fail, and has the session's
  address set after creation or import: on success the user's session holds the network that
  was passed and the new address.
\<close>

definition record_wallet :: "env \<Rightarrow> userId \<Rightarrow> Network \<Rightarrow> WalletInfo \<Rightarrow> WalletInfo prog" where
  "record_wallet E uid net wi =
     then_do (ask (clock E)) (\<lambda>now.
     then_do (userSettings_set uid
                \<lparr>network = Some net, address = Some (walletAddress wi), lastActivity = now\<rparr>) (\<lambda>_.
     ret wi))"

definition generateNewWallet :: "env \<Rightarrow> userId \<Rightarrow> Network \<Rightarrow> WalletInfo prog" where
  "generateNewWallet E uid net =
     then_do (emit (GenerateNewWallet uid net)) (\<lambda>_.
     then_do (await (generated E) WalletError) (\<lambda>wi.
     record_wallet E uid net wi))"

definition importWalletFromPrivateKey ::
  "env \<Rightarrow> string \<Rightarrow> userId \<Rightarrow> Network \<Rightarrow> WalletInfo prog" where
  "importWalletFromPrivateKey E key uid net =
     then_do (emit (ImportWalletFromPrivateKey key uid net)) (\<lambda>_.
     then_do (await (imported E) WalletError) (\<lambda>wi.
     record_wallet E uid net wi))"

definition sendKaspa :: "env \<Rightarrow> userId \<Rightarrow> int \<Rightarrow> string \<Rightarrow> Network \<Rightarrow> string prog" where
  "sendKaspa E uid amount recipient net =
     then_do (emit (SendKaspa uid amount recipient net)) (\<lambda>_.
     await (transaction E) TransactionError)"

definition getBalance :: "env \<Rightarrow> userId \<Rightarrow> Network option \<Rightarrow> (string \<times> string list) prog" where
  "getBalance E uid net =
     then_do (emit (GetBalance uid net)) (\<lambda>_.
     await (balances E) NetworkError)"

text \<open>
  \<^verbatim>\<open>getTransactionHistory\<close>: the placeholder list behind \<^verbatim>\<open>retryableRequest\<close>; a
  rejection is rethrown as the error \<^verbatim>\<open>handleNetworkError\<close> builds.
\<close>

type_synonym tx = "string \<times> string \<times> string \<times> string"

definition getTransactionHistory :: "env \<Rightarrow> string \<Rightarrow> Network option \<Rightarrow> tx list prog" where
  "getTransactionHistory E addr net =
     then_do (emit (GetTransactionHistory addr net)) (\<lambda>_.
     then_do (await (delivery E) NetworkError) (\<lambda>_.
     ret [(''tx1'', ''10'', ''Received'', ''2023-04-01 10:00:00''),
          (''tx2'', ''5'', ''Sent'', ''2023-04-02 15:30:00'')]))"

subsection \<open>The actions of the menu that do not recurse\<close>

fun join_lines :: "string list \<Rightarrow> string" where
  "join_lines [] = []"
| "join_lines [x] = x"
| "join_lines (x # y # ys) = x @ [CHR 0x0A] @ join_lines (y # ys)"

definition checkBalance :: "env \<Rightarrow> ChannelType \<Rightarrow> userId \<Rightarrow> unit prog" where
  "checkBalance E channel uid =
     try_catch
       (then_do (checkRateLimit E uid ''checkBalance'') (\<lambda>allowed.
        if \<not> allowed then throw (AppError ''RATE_LIMIT_EXCEEDED'')
        else
        then_do (userSettings_get uid) (\<lambda>userSession.
        case userSession of
          None \<Rightarrow> throw (AppError ''INVALID_WALLET'')
        | Some s \<Rightarrow>
            if \<not> truthy (address s) then throw (AppError ''INVALID_WALLET'')
            else
            then_do (getBalance E uid (network s)) (\<lambda>(kaspaBalance, krc20Balances).
            deliver E (SentEmbed ''Wallet Balance''
              [(''Kaspa Balance'', kaspaBalance),
               (''KRC20 Tokens'', if krc20Balances \<noteq> [] then join_lines krc20Balances
                                  else ''No KRC20 tokens'')] [])))))
       (\<lambda>e. handleError e channel ''checkBalance'')"

definition digit_char :: "nat \<Rightarrow> char" where
  "digit_char n = char_of (48 + n)"

definition history_field :: "nat \<Rightarrow> tx \<Rightarrow> string \<times> string" where
  "history_field index t = (case t of (txid, amount, kind, timestamp) \<Rightarrow>
     (''Transaction '' @ [digit_char (index + 1)],
      ''ID: '' @ txid @ [CHR 0x0A] @ ''Amount: '' @ amount @ '' KAS'' @ [CHR 0x0A]
        @ ''Type: '' @ kind @ [CHR 0x0A] @ ''Timestamp: '' @ timestamp))"

definition showTransactionHistory :: "env \<Rightarrow> ChannelType \<Rightarrow> userId \<Rightarrow> unit prog" where
  "showTransactionHistory E channel uid =
     try_catch
       (then_do (checkRateLimit E uid ''showTransactionHistory'') (\<lambda>allowed.
        if \<not> allowed then throw (AppError ''RATE_LIMIT_EXCEEDED'')
        else
        then_do (userSettings_get uid) (\<lambda>userSession.
        case userSession of
          None \<Rightarrow> throw (AppError ''INVALID_WALLET'')
        | Some s \<Rightarrow>
            (case address s of
               None \<Rightarrow> throw (AppError ''INVALID_WALLET'')
             | Some a \<Rightarrow>
                 if a = [] \<or> \<not> validateAddress E a then throw (AppError ''INVALID_WALLET'')
                 else
                 then_do (getTransactionHistory E a (network s)) (\<lambda>history.
                 deliver E (SentEmbed ''Transaction History''
                   (map (\<lambda>(index, t). history_field index t)
                        (zip [0 ..< length (take 5 history)] (take 5 history))) []))))))
       (\<lambda>e. handleError e channel ''showTransactionHistory'')"

definition showHelpMessage :: "env \<Rightarrow> ChannelType \<Rightarrow> userId \<Rightarrow> unit prog" where
  "showHelpMessage E channel uid =
     try_catch
       (then_do (checkRateLimit E uid ''showHelpMessage'') (\<lambda>allowed.
        if \<not> allowed then throw (AppError ''RATE_LIMIT_EXCEEDED'')
        else
        deliver E (SentEmbed ''Wallet Help''
          [(''Send Kaspa'', ''Send Kaspa to another address''),
           (''Check Balance'', ''View your current Kaspa and KRC20 token balances''),
           (''Transaction History'', ''View your recent transactions''),
           (''Back'', ''Return to the main wallet menu'')] [])))
       (\<lambda>e. handleError e channel ''showHelpMessage'')"

text \<open>The loop over the bot's own messages: one awaited \<^verbatim>\<open>delete\<close> each.\<close>

fun delete_each :: "env \<Rightarrow> nat \<Rightarrow> unit prog" where
  "delete_each E 0 = ret ()"
| "delete_each E (Suc k) = then_do (deliver E MessageDeleted) (\<lambda>_. delete_each E k)"

definition clearChatHistory :: "env \<Rightarrow> ChannelType \<Rightarrow> userId \<Rightarrow> unit prog" where
  "clearChatHistory E channel uid =
     try_catch
       (then_do (checkRateLimit E uid ''clearChatHistory'') (\<lambda>allowed.
        if \<not> allowed then throw (AppError ''RATE_LIMIT_EXCEEDED'')
        else if channel = DM then
          then_do (emit MessagesFetched) (\<lambda>_.
          then_do (await (botMessages E) TransportError) (\<lambda>k.
          then_do (delete_each E k) (\<lambda>_.
          deliver E (Sent ''Bot messages have been cleared. For security, please manually delete any of your messages containing sensitive information.''))))
        else throw (AppError ''INVALID_CHANNEL_TYPE'')))
       (\<lambda>e. handleError e channel ''clearChatHistory'')"

subsection \<open>The send flow\<close>

definition explorerUrl :: "Network \<Rightarrow> string \<Rightarrow> string" where
  "explorerUrl net txId =
     (if net = ''Mainnet'' then ''https://explorer.kaspa.org/txs/'' @ txId
      else if net = ''Testnet-10'' then ''https://explorer-tn10.kaspa.org/txs/'' @ txId
      else if net = ''Testnet-11'' then ''https://explorer-tn11.kaspa.org/txs/'' @ txId
      else ''Transaction ID: '' @ txId)"

text \<open>The inner \<^verbatim>\<open>try\<close> block of \<^verbatim>\<open>sendKaspaPrompt\<close> (lines 378 to 407).\<close>

definition sendKaspaPrompt_confirm ::
  "env \<Rightarrow> userId \<Rightarrow> string \<Rightarrow> string \<Rightarrow> Network \<Rightarrow> unit prog" where
  "sendKaspaPrompt_confirm E uid amount recipientAddress net =
     then_do (awaitMessageComponent E [''confirm_send'', ''cancel_send''] uid 60000) (\<lambda>confirmation.
     then_do (deliver E DeferredUpdate) (\<lambda>_.
     if customId confirmation = ''confirm_send'' then
       (case minor_units amount of
          None \<Rightarrow> throw RangeError
        | Some units \<Rightarrow>
            then_do (sendKaspa E uid units recipientAddress net) (\<lambda>txId.
            deliver E (Sent (''Transaction completed successfully! View on Explorer here: ''
                             @ explorerUrl net txId))))
     else deliver E (Sent ''Transaction cancelled.'')))"

text \<open>The outer \<^verbatim>\<open>try\<close> block of \<^verbatim>\<open>sendKaspaPrompt\<close> (lines 324 to 411).\<close>

definition sendKaspaPrompt_body :: "env \<Rightarrow> ChannelType \<Rightarrow> userId \<Rightarrow> unit prog" where
  "sendKaspaPrompt_body E channel uid =
     then_do (userSettings_get uid) (\<lambda>userSession.
     case userSession of
       None \<Rightarrow> throw (AppError ''INVALID_SESSION'')
     | Some s \<Rightarrow>
         (case network s of
            None \<Rightarrow> throw (AppError ''INVALID_SESSION'')
          | Some net \<Rightarrow>
              if net = [] then throw (AppError ''INVALID_SESSION'')
              else
              then_do (deliver E (Sent (''Please enter the recipient'' @ [CHR 0x27] @ ''s Kaspa address:''))) (\<lambda>_.
              then_do (awaitMessages E uid (\<lambda>m. author m = uid) 60000) (\<lambda>addressResponse.
              let recipientAddress = sanitizeInput E addressResponse in
              if \<not> validateAddress E recipientAddress then throw (AppError ''INVALID_ADDRESS'')
              else
              then_do (deliver E (Sent ''Please enter the amount of KAS to send:'')) (\<lambda>_.
              then_do (awaitMessages E uid (\<lambda>m. author m = uid) 60000) (\<lambda>amountResponse.
              let amount = sanitizeInput E amountResponse in
              if \<not> validateAmount E amount then throw (AppError ''INVALID_AMOUNT'')
              else
              then_do (deliver E (SentEmbed ''Confirm Transaction''
                         [(''Amount'', amount @ '' KAS''), (''Recipient Address'', recipientAddress)]
                         [(''confirm_send'', ''Confirm''), (''cancel_send'', ''Cancel'')])) (\<lambda>_.
              try_catch (sendKaspaPrompt_confirm E uid amount recipientAddress net)
                (\<lambda>interactionError.
                   deliver E (Sent ''The confirmation interaction failed or timed out. Please try the transaction again.'')))))))))"

text \<open>
  \<^verbatim>\<open>sendKaspaPrompt\<close> up to the assignment in its \<^verbatim>\<open>finally\<close> block: the state is set
  to \<open>SENDING_KASPA\<close>, the body runs, what it throws is handed to \<^verbatim>\<open>handleError\<close>, and
  the state is set to \<open>WALLET_ACTIONS\<close>. The call of \<^verbatim>\<open>promptWalletActions\<close> that ends the
  \<^verbatim>\<open>finally\<close> block is in \<open>exec\<close> below.
\<close>

definition sendKaspaPrompt_flow :: "env \<Rightarrow> ChannelType \<Rightarrow> userId \<Rightarrow> unit prog" where
  "sendKaspaPrompt_flow E channel uid =
     then_do (userWalletStates_set uid SENDING_KASPA) (\<lambda>_.
     then_do (try_catch (sendKaspaPrompt_body E channel uid)
                (\<lambda>e. handleError e channel ''sendKaspaPrompt'')) (\<lambda>_.
     userWalletStates_set uid WALLET_ACTIONS))"

subsection \<open>Network selection up to the state change\<close>

text \<open>
  Lines 96 to 131 of \<^verbatim>\<open>promptNetworkSelection\<close>: the prompt, the wait, the write of the
  session and the state change. The value is the selected network.
\<close>

definition promptNetworkSelection_select :: "env \<Rightarrow> ChannelType \<Rightarrow> userId \<Rightarrow> Network prog" where
  "promptNetworkSelection_select E channel uid =
     then_do (deliver E (SentEmbed ''Network Selection'' []
                [(''Mainnet'', ''Mainnet''), (''Testnet-10'', ''Testnet-10''),
                 (''Testnet-11'', ''Testnet-11'')])) (\<lambda>_.
     then_do (awaitMessageComponent E [''Mainnet'', ''Testnet-10'', ''Testnet-11''] uid 300000)
       (\<lambda>interaction.
     then_do (deliver E DeferredUpdate) (\<lambda>_.
     let selectedNetwork = customId interaction in
     if \<not> validateNetwork E selectedNetwork then throw (AppError ''INVALID_NETWORK'')
     else
     then_do (ask (clock E)) (\<lambda>now.
     then_do (userSettings_set uid
                \<lparr>network = Some selectedNetwork, address = None, lastActivity = now\<rparr>) (\<lambda>_.
     then_do (delete_quietly E) (\<lambda>_.
     then_do (deliver E (Sent (''You'' @ [CHR 0x27] @ ''ve selected '' @ selectedNetwork
                               @ ''. Let'' @ [CHR 0x27] @ ''s set up your wallet.''))) (\<lambda>_.
     then_do (userWalletStates_set uid WALLET_OPTIONS) (\<lambda>_.
     ret selectedNetwork))))))))"

subsection \<open>The prompts that call each other\<close>

text \<open>
  The six functions of the file that call each other, as one function over the routine that
  is entered. \<^verbatim>\<open>promptWalletActions\<close> calls itself after every action and after every
  error, so a run has no last step: \<open>exec\<close> takes the number of nested calls it may still
  make, and a run that needs more is cut there, as a run whose promise is unresolved is.
\<close>

datatype routine =
    PromptNetworkSelection ChannelType userId
  | PromptWalletOptions ChannelType userId Network
  | CreateNewWallet ChannelType userId Network
  | ImportExistingWallet ChannelType userId Network
  | PromptWalletActions ChannelType userId
  | SendKaspaPrompt ChannelType userId

definition warning_sign :: string where
  "warning_sign = [CHR 0xE2, CHR 0x9A, CHR 0xA0, CHR 0xEF, CHR 0xB8, CHR 0x8F]"

fun exec :: "env \<Rightarrow> nat \<Rightarrow> routine \<Rightarrow> unit prog" where
  "exec E 0 r = suspend"
| "exec E (Suc n) (PromptNetworkSelection channel uid) =
     then_do (checkRateLimit E uid ''networkSelection'') (\<lambda>allowed.
     if \<not> allowed then throw (AppError ''RATE_LIMIT_EXCEEDED'')
     else
     try_catch
       (then_do (promptNetworkSelection_select E channel uid) (\<lambda>selectedNetwork.
        exec E n (PromptWalletOptions channel uid selectedNetwork)))
       (\<lambda>e.
        then_do (handleError (AppError ''NETWORK_SELECTION_TIMEOUT'') channel
                   ''promptNetworkSelection'') (\<lambda>_.
        userWalletStates_delete uid)))"
| "exec E (Suc n) (PromptWalletOptions channel uid net) =
     try_catch
       (then_do (deliver E (SentEmbed ''Wallet Options'' []
                   [(''create'', ''Create New Wallet''), (''import'', ''Import Existing Wallet'')])) (\<lambda>_.
        then_do (awaitMessageComponent E [''create'', ''import''] uid 300000) (\<lambda>interaction.
        then_do (deliver E DeferredUpdate) (\<lambda>_.
        then_do (delete_quietly E) (\<lambda>_.
        if customId interaction = ''create'' then exec E n (CreateNewWallet channel uid net)
        else exec E n (ImportExistingWallet channel uid net))))))
       (\<lambda>e.
        then_do (handleError e channel ''promptWalletOptions'') (\<lambda>_.
        userWalletStates_delete uid))"
| "exec E (Suc n) (CreateNewWallet channel uid net) =
     try_catch
       (then_do (generateNewWallet E uid net) (\<lambda>walletInfo.
        then_do (deliver E (Sent ''Your new wallet has been created. Please store this information securely:'')) (\<lambda>_.
        then_do (deliver E (Sent (''Address: '' @ walletAddress walletInfo))) (\<lambda>_.
        then_do (deliver E (Sent (''Private Key: '' @ privateKey walletInfo))) (\<lambda>_.
        then_do (deliver E (Sent (''Mnemonic: '' @ mnemonic walletInfo))) (\<lambda>_.
        then_do (deliver E (Sent (warning_sign @ '' WARNING: Never share your private key or mnemonic with anyone!''))) (\<lambda>_.
        then_do (userWalletStates_set uid WALLET_ACTIONS) (\<lambda>_.
        exec E n (PromptWalletActions channel uid)))))))))
       (\<lambda>e.
        then_do (handleError (AppError ''WALLET_CREATION_ERROR'') channel ''createNewWallet'') (\<lambda>_.
        then_do (userWalletStates_set uid WALLET_OPTIONS) (\<lambda>_.
        exec E n (PromptWalletOptions channel uid net))))"
| "exec E (Suc n) (ImportExistingWallet channel uid net) =
     then_do (userWalletStates_set uid IMPORTING_WALLET) (\<lambda>_.
     try_catch
       (then_do (deliver E (Sent ''Please enter your private key:'')) (\<lambda>_.
        then_do (awaitMessages E uid (\<lambda>m. author m = uid \<and> validatePrivateKey E (content m)) 60000)
          (\<lambda>privateKeyResponse.
        let key = sanitizeInput E privateKeyResponse in
        then_do (importWalletFromPrivateKey E key uid net) (\<lambda>walletInfo.
        then_do (deliver E (Sent (''Your wallet has been imported successfully. Address: ''
                                  @ walletAddress walletInfo))) (\<lambda>_.
        then_do (userWalletStates_set uid WALLET_ACTIONS) (\<lambda>_.
        exec E n (PromptWalletActions channel uid)))))))
       (\<lambda>e.
        then_do (handleError e channel ''importExistingWallet'') (\<lambda>_.
        then_do (userWalletStates_set uid WALLET_OPTIONS) (\<lambda>_.
        exec E n (PromptWalletOptions channel uid net)))))"
| "exec E (Suc n) (PromptWalletActions channel uid) =
     try_catch
       (then_do (checkRateLimit E uid ''walletActions'') (\<lambda>allowed.
        if \<not> allowed then throw (AppError ''RATE_LIMIT_EXCEEDED'')
        else
        then_do (deliver E (SentEmbed ''Wallet Actions'' []
                   [(''send'', ''Send Kaspa''), (''balance'', ''Check Balance''),
                    (''history'', ''Transaction History''), (''help'', ''Help''),
                    (''clear'', ''Clear Chat''), (''back'', ''Back'')])) (\<lambda>_.
        then_do (awaitMessageComponent E
                   [''send'', ''balance'', ''history'', ''help'', ''clear'', ''back''] uid 300000)
          (\<lambda>interaction.
        then_do (deliver E DeferredUpdate) (\<lambda>_.
        if customId interaction = ''back'' then
          then_do (userWalletStates_set uid NETWORK_SELECTION) (\<lambda>_.
          exec E n (PromptNetworkSelection channel uid))
        else
          then_do
            (if customId interaction = ''send'' then exec E n (SendKaspaPrompt channel uid)
             else if customId interaction = ''balance'' then checkBalance E channel uid
             else if customId interaction = ''history'' then showTransactionHistory E channel uid
             else if customId interaction = ''help'' then showHelpMessage E channel uid
             else if customId interaction = ''clear'' then clearChatHistory E channel uid
             else ret ()) (\<lambda>_.
          exec E n (PromptWalletActions channel uid)))))))
       (\<lambda>e.
        then_do (handleError e channel ''promptWalletActions'') (\<lambda>_.
        then_do (userWalletStates_set uid WALLET_ACTIONS) (\<lambda>_.
        exec E n (PromptWalletActions channel uid))))"
| "exec E (Suc n) (SendKaspaPrompt channel uid) =
     then_do (sendKaspaPrompt_flow E channel uid) (\<lambda>_.
     exec E n (PromptWalletActions channel uid))"

subsection \<open>The dispatcher\<close>

definition currentState :: "WalletState option \<Rightarrow> WalletState" where
  "currentState st = (case st of None \<Rightarrow> IDLE | Some s \<Rightarrow> s)"

definition handleWalletCommand :: "env \<Rightarrow> nat \<Rightarrow> Message \<Rightarrow> unit prog" where
  "handleWalletCommand E n message =
     (let uid = author message in
      then_do
        (if channelType message = DM then ret DM
         else
           then_do (deliver E (DMCreated uid)) (\<lambda>_.
           then_do (deliver E (Replied (''I'' @ [CHR 0x27] @ ''ve sent you a DM to start your wallet session!''))) (\<lambda>_.
           ret DM))) (\<lambda>channel.
      then_do (userWalletStates_get uid) (\<lambda>st.
      if currentState st \<in> set [SENDING_KASPA, IMPORTING_WALLET] then ret ()
      else
        try_catch
          (then_do (userSettings_get uid) (\<lambda>userSession.
           case currentState st of
             IDLE \<Rightarrow>
               then_do (deliver E (Sent (''Welcome to your private Kat Wallet Session. Let''
                          @ [CHR 0x27] @ ''s start by choosing which Network you''
                          @ [CHR 0x27] @ ''ll be using.''))) (\<lambda>_.
               exec E n (PromptNetworkSelection channel uid))
           | NETWORK_SELECTION \<Rightarrow> exec E n (PromptNetworkSelection channel uid)
           | WALLET_OPTIONS \<Rightarrow>
               (case userSession of
                  None \<Rightarrow> exec E n (PromptNetworkSelection channel uid)
                | Some s \<Rightarrow>
                    (case network s of
                       None \<Rightarrow> exec E n (PromptNetworkSelection channel uid)
                     | Some net \<Rightarrow>
                         if net = [] then exec E n (PromptNetworkSelection channel uid)
                         else exec E n (PromptWalletOptions channel uid net)))
           | WALLET_ACTIONS \<Rightarrow> exec E n (PromptWalletActions channel uid)
           | _ \<Rightarrow>
               then_do (userWalletStates_set uid IDLE) (\<lambda>_.
               exec E n (PromptNetworkSelection channel uid))))
          (\<lambda>e. handleError e channel ''handleWalletCommand''))))"

section \<open>Vocabulary of the properties\<close>

subsection \<open>Outcomes and invariants of a program\<close>

text \<open>
  \<open>wp m Q w\<close>: running \<open>m\<close> from \<open>w\<close> ends with a result and a world that satisfy \<open>Q\<close>.
  \<open>keeps P m\<close>: whatever the outcome, \<open>m\<close> takes a world that satisfies \<open>P\<close> to one that
  does.
\<close>

definition wp :: "'a prog \<Rightarrow> ('a result \<Rightarrow> world \<Rightarrow> bool) \<Rightarrow> world \<Rightarrow> bool" where
  "wp m Q w = Q (fst (m w)) (snd (m w))"

definition keeps :: "(world \<Rightarrow> bool) \<Rightarrow> 'a prog \<Rightarrow> bool" where
  "keeps P m \<longleftrightarrow> (\<forall>w. P w \<longrightarrow> P (snd (m w)))"

text \<open>
  \<open>ticking P\<close>: asking the outside keeps \<open>P\<close>. \<open>logging P e\<close>: recording \<open>e\<close>
  keeps \<open>P\<close>.
\<close>

definition ticking :: "(world \<Rightarrow> bool) \<Rightarrow> bool" where
  "ticking P \<longleftrightarrow> (\<forall>w. P w \<longrightarrow> P (w\<lparr>tick := Suc (tick w)\<rparr>))"

definition logging :: "(world \<Rightarrow> bool) \<Rightarrow> event \<Rightarrow> bool" where
  "logging P e \<longleftrightarrow> (\<forall>w. P w \<longrightarrow> P (w\<lparr>trace := trace w @ [e]\<rparr>))"

subsection \<open>Reading the trace and the environment\<close>

fun is_SendKaspa :: "event \<Rightarrow> bool" where
  "is_SendKaspa (SendKaspa u a r n) = True"
| "is_SendKaspa _ = False"

text \<open>The calls of \<^verbatim>\<open>sendKaspa\<close> made so far, oldest first.\<close>

definition sent :: "world \<Rightarrow> event list" where
  "sent w = filter is_SendKaspa (trace w)"

text \<open>
  What the collector opened at call \<open>k\<close> resolves with: the custom id of the selection, or
  the text of the message; \<open>None\<close> when nothing that passes the filter arrives before the
  deadline, when the collector rejects, and when it is still waiting.
\<close>

definition selection :: "env \<Rightarrow> string list \<Rightarrow> userId \<Rightarrow> nat \<Rightarrow> nat \<Rightarrow> string option" where
  "selection E ids uid time k = (case components E k of
      Resolved arrivals \<Rightarrow> map_option customId (first_component ids uid time arrivals)
    | Rejected \<Rightarrow> None
    | Unresolved \<Rightarrow> None)"

definition entered :: "env \<Rightarrow> userId \<Rightarrow> nat \<Rightarrow> string option" where
  "entered E uid k = (case inbox E k of
      Resolved arrivals \<Rightarrow> first_message (\<lambda>m. author m = uid) 60000 arrivals
    | Rejected \<Rightarrow> None
    | Unresolved \<Rightarrow> None)"

text \<open>
  The confirmation wait opened at call \<open>k\<close> resolves with \<^verbatim>\<open>confirm_send\<close> and the
  \<^verbatim>\<open>deferUpdate\<close> that follows it resolves.
\<close>

definition confirmed :: "env \<Rightarrow> userId \<Rightarrow> nat \<Rightarrow> bool" where
  "confirmed E uid k \<longleftrightarrow>
     selection E [''confirm_send'', ''cancel_send''] uid 60000 k = Some ''confirm_send''
     \<and> delivery E (Suc k) = Resolved ()"

text \<open>The wait opened at call \<open>k\<close> is over and no accepted selection arrived in time.\<close>

definition timed_out :: "env \<Rightarrow> string list \<Rightarrow> userId \<Rightarrow> nat \<Rightarrow> nat \<Rightarrow> bool" where
  "timed_out E ids uid time k \<longleftrightarrow>
     components E k \<noteq> Unresolved \<and> selection E ids uid time k = None"

text \<open>No promise stays unresolved: every awaited call resolves or rejects.\<close>

definition responsive :: "env \<Rightarrow> bool" where
  "responsive E \<longleftrightarrow>
     (\<forall>k. delivery E k \<noteq> Unresolved \<and> components E k \<noteq> Unresolved \<and> inbox E k \<noteq> Unresolved
          \<and> generated E k \<noteq> Unresolved \<and> imported E k \<noteq> Unresolved
          \<and> transaction E k \<noteq> Unresolved \<and> balances E k \<noteq> Unresolved
          \<and> botMessages E k \<noteq> Unresolved)"

subsection \<open>Reachable worlds\<close>

definition initial :: world where
  "initial = \<lparr>userWalletStates = Map.empty, userSettings = Map.empty, tick = 0, trace = []\<rparr>"

text \<open>
  The worlds that a sequence of dispatched events leads to from the empty maps. Each event
  is dispatched on the world the previous one left, with any environment and any bound on the
  nested calls; a dispatch that is cut short leaves the world of the point where it was cut.
\<close>

inductive reachable :: "world \<Rightarrow> bool" where
  start: "reachable initial"
| dispatch: "reachable w \<Longrightarrow> reachable (snd (handleWalletCommand E n message w))"

definition needs_network :: "WalletState \<Rightarrow> bool" where
  "needs_network s \<longleftrightarrow>
     s \<in> set [WALLET_OPTIONS, WALLET_ACTIONS, SENDING_KASPA, IMPORTING_WALLET,
              CHECKING_BALANCE, VIEWING_HISTORY]"

definition has_network :: "world \<Rightarrow> userId \<Rightarrow> bool" where
  "has_network w uid = (case userSettings w uid of None \<Rightarrow> False | Some s \<Rightarrow> truthy (network s))"

definition network_known :: "userId set \<Rightarrow> world \<Rightarrow> bool" where
  "network_known S w \<longleftrightarrow>
     (\<forall>u s. userWalletStates w u = Some s \<longrightarrow> needs_network s \<longrightarrow> has_network w u)
     \<and> (\<forall>u \<in> S. has_network w u)"

text \<open>What a routine is entered with: the user's network is on record and the one passed is not empty.\<close>

fun entry :: "routine \<Rightarrow> userId set \<Rightarrow> bool" where
  "entry (PromptNetworkSelection channel uid) S = True"
| "entry (PromptWalletOptions channel uid net) S = (uid \<in> S \<and> net \<noteq> [])"
| "entry (CreateNewWallet channel uid net) S = (uid \<in> S \<and> net \<noteq> [])"
| "entry (ImportExistingWallet channel uid net) S = (uid \<in> S \<and> net \<noteq> [])"
| "entry (PromptWalletActions channel uid) S = (uid \<in> S)"
| "entry (SendKaspaPrompt channel uid) S = (uid \<in> S)"

text \<open>The events the code can record: the states it assigns and the deadlines it waits with.\<close>

fun emitted :: "event \<Rightarrow> bool" where
  "emitted (StateSet u s) = (s \<noteq> CHECKING_BALANCE \<and> s \<noteq> VIEWING_HISTORY)"
| "emitted (AwaitedComponent ids u time) =
     (if ids = [''confirm_send'', ''cancel_send''] then time = 60000 else time = 300000)"
| "emitted (AwaitedMessages u time) = (time = 60000)"
| "emitted _ = True"

definition sane :: "world \<Rightarrow> bool" where
  "sane w \<longleftrightarrow>
     (\<forall>u. userWalletStates w u \<noteq> Some CHECKING_BALANCE \<and> userWalletStates w u \<noteq> Some VIEWING_HISTORY)
     \<and> list_all emitted (trace w)"

fun deadline_ok :: "event \<Rightarrow> bool" where
  "deadline_ok (AwaitedComponent ids u time) =
     (time = (if ids = [''confirm_send'', ''cancel_send''] then 60000 else 300000))"
| "deadline_ok (AwaitedMessages u time) = (time = 60000)"
| "deadline_ok _ = True"




subsection \<open>Environments and worlds of the examples\<close>

text \<open>Every call resolves, the rate limiter allows, the validators accept, nothing arrives.\<close>

definition answering :: env where
  "answering =
     \<lparr>delivery = (\<lambda>k. Resolved ()),
      components = (\<lambda>k. Resolved []),
      inbox = (\<lambda>k. Resolved []),
      rateLimit = (\<lambda>k. True),
      clock = (\<lambda>k. k),
      generated = (\<lambda>k. Rejected),
      imported = (\<lambda>k. Rejected),
      transaction = (\<lambda>k. Resolved ''tx-1''),
      balances = (\<lambda>k. Resolved (''0'', [])),
      botMessages = (\<lambda>k. Resolved 0),
      validateAddress = (\<lambda>s. True),
      validateAmount = (\<lambda>s. True),
      validatePrivateKey = (\<lambda>s. True),
      validateNetwork = (\<lambda>s. True),
      sanitizeInput = (\<lambda>s. s)\<rparr>"

text \<open>The user clicks the button \<open>cid\<close> one second into every component wait.\<close>

definition clicking :: "userId \<Rightarrow> string \<Rightarrow> env \<Rightarrow> env" where
  "clicking uid cid E = E\<lparr>components := (\<lambda>k. Resolved [(1000, \<lparr>customId = cid, user = uid\<rparr>)])\<rparr>"

text \<open>The user answers the message wait opened at call \<open>k\<close> with \<open>text k\<close>.\<close>

definition typing :: "userId \<Rightarrow> (nat \<Rightarrow> string) \<Rightarrow> env \<Rightarrow> env" where
  "typing uid text E =
     E\<lparr>inbox := (\<lambda>k. Resolved [(1000, \<lparr>author = uid, content = text k, channelType = DM\<rparr>)])\<rparr>"

text \<open>A send flow: the address is asked at call 1, the amount at call 3, the choice at call 5.\<close>

definition send_dialogue :: "string \<Rightarrow> string \<Rightarrow> env" where
  "send_dialogue amount choice =
     typing ''alice'' (\<lambda>k. if k = 1 then ''kaspa:bob'' else amount)
       (clicking ''alice'' choice answering)"

definition nobody_answers :: env where
  "nobody_answers = answering\<lparr>components := (\<lambda>k. Unresolved)\<rparr>"

text \<open>The first component wait, at call 3, is answered with Mainnet; the next one is still open.\<close>

definition picks_mainnet :: env where
  "picks_mainnet = answering\<lparr>components :=
     (\<lambda>k. if k = 3 then Resolved [(1000, \<lparr>customId = ''Mainnet'', user = ''alice''\<rparr>)]
          else Unresolved)\<rparr>"

definition trigger :: "ChannelType \<Rightarrow> Message" where
  "trigger c = \<lparr>author = ''alice'', content = ''!wallet'', channelType = c\<rparr>"

definition wallet_open :: world where
  "wallet_open =
     \<lparr>userWalletStates = [''alice'' \<mapsto> WALLET_ACTIONS],
      userSettings = [''alice'' \<mapsto>
        \<lparr>network = Some ''Mainnet'', address = Some ''kaspa:alice'', lastActivity = 0\<rparr>],
      tick = 0, trace = []\<rparr>"

definition mid_send :: world where
  "mid_send = wallet_open\<lparr>userWalletStates := [''alice'' \<mapsto> SENDING_KASPA]\<rparr>"

section \<open>Rules\<close>

subsection \<open>Symbolic execution\<close>

lemma wp_ret: "wp (ret a) Q w = Q (Returned a) w"
  by (simp add: wp_def ret_def)

lemma wp_throw: "wp (throw e) Q w = Q (Threw e) w"
  by (simp add: wp_def throw_def)

lemma wp_suspend: "wp suspend Q w = Q Suspended w"
  by (simp add: wp_def suspend_def)

lemma wp_then_do:
  "wp (then_do m f) Q w =
     wp m (\<lambda>r w'. case r of Returned a \<Rightarrow> wp (f a) Q w' | Threw e \<Rightarrow> Q (Threw e) w'
                   | Suspended \<Rightarrow> Q Suspended w') w"
  by (simp add: wp_def then_do_def split: prod.splits result.splits)

lemma wp_try_catch:
  "wp (try_catch m h) Q w =
     wp m (\<lambda>r w'. case r of Returned a \<Rightarrow> Q (Returned a) w' | Threw e \<Rightarrow> wp (h e) Q w'
                   | Suspended \<Rightarrow> Q Suspended w') w"
  by (simp add: wp_def try_catch_def split: prod.splits result.splits)

lemma wp_emit: "wp (emit e) Q w = Q (Returned ()) (w\<lparr>trace := trace w @ [e]\<rparr>)"
  by (simp add: wp_def emit_def)

lemma wp_ask: "wp (ask f) Q w = Q (Returned (f (tick w))) (w\<lparr>tick := Suc (tick w)\<rparr>)"
  by (simp add: wp_def ask_def)

lemma wp_await:
  "wp (await f e) Q w =
     ((\<forall>a. f (tick w) = Resolved a \<longrightarrow> Q (Returned a) (w\<lparr>tick := Suc (tick w)\<rparr>))
      \<and> (f (tick w) = Rejected \<longrightarrow> Q (Threw e) (w\<lparr>tick := Suc (tick w)\<rparr>))
      \<and> (f (tick w) = Unresolved \<longrightarrow> Q Suspended (w\<lparr>tick := Suc (tick w)\<rparr>)))"
  by (cases "f (tick w)") (simp_all add: await_def wp_then_do wp_ask wp_ret wp_throw wp_suspend)

lemma wp_if: "wp (if c then a else b) Q w = ((c \<longrightarrow> wp a Q w) \<and> (\<not> c \<longrightarrow> wp b Q w))"
  by simp

lemma wp_case_option:
  "wp (case x of None \<Rightarrow> a | Some y \<Rightarrow> b y) Q w =
     ((x = None \<longrightarrow> wp a Q w) \<and> (\<forall>y. x = Some y \<longrightarrow> wp (b y) Q w))"
  by (simp split: option.splits)

lemma wp_case_prod:
  "wp (case x of (a, b) \<Rightarrow> f a b) Q w = (\<forall>a b. x = (a, b) \<longrightarrow> wp (f a b) Q w)"
  by (simp split: prod.splits)

lemma wp_let: "wp (let x = t in f x) Q w = wp (f t) Q w"
  by simp

lemma wp_userWalletStates_get:
  "wp (userWalletStates_get uid) Q w = Q (Returned (userWalletStates w uid)) w"
  by (simp add: wp_def userWalletStates_get_def)

lemma wp_userWalletStates_set:
  "wp (userWalletStates_set uid s) Q w =
     Q (Returned ()) (w\<lparr>userWalletStates := (userWalletStates w)(uid \<mapsto> s),
                        trace := trace w @ [StateSet uid s]\<rparr>)"
  by (simp add: wp_def userWalletStates_set_def)

lemma wp_userWalletStates_delete:
  "wp (userWalletStates_delete uid) Q w =
     Q (Returned ()) (w\<lparr>userWalletStates := (userWalletStates w)(uid := None),
                        trace := trace w @ [StateDeleted uid]\<rparr>)"
  by (simp add: wp_def userWalletStates_delete_def)

lemma wp_userSettings_get: "wp (userSettings_get uid) Q w = Q (Returned (userSettings w uid)) w"
  by (simp add: wp_def userSettings_get_def)

lemma wp_userSettings_set:
  "wp (userSettings_set uid s) Q w =
     Q (Returned ()) (w\<lparr>userSettings := (userSettings w)(uid \<mapsto> s),
                        trace := trace w @ [SettingsSet uid s]\<rparr>)"
  by (simp add: wp_def userSettings_set_def)

lemma wp_mono: "wp m Q' w \<Longrightarrow> (\<And>r w'. Q' r w' \<Longrightarrow> Q r w') \<Longrightarrow> wp m Q w"
  by (simp add: wp_def)

lemmas wp_rules =
  wp_ret wp_throw wp_suspend wp_then_do wp_try_catch wp_emit wp_ask wp_await wp_if
  wp_case_option wp_case_prod wp_let wp_userWalletStates_get wp_userWalletStates_set
  wp_userWalletStates_delete wp_userSettings_get wp_userSettings_set

lemmas step_defs =
  deliver_def delete_quietly_def awaitMessageComponent_def awaitMessages_def checkRateLimit_def
  handleError_def record_wallet_def generateNewWallet_def importWalletFromPrivateKey_def
  sendKaspa_def getBalance_def getTransactionHistory_def

lemma first_component_accepts:
  "first_component ids uid time arrivals = Some i \<Longrightarrow> customId i \<in> set ids \<and> user i = uid"
  by (auto simp: first_component_def find_Some_iff)

subsection \<open>Invariants\<close>

lemma keepsI: "(\<And>w. P w \<Longrightarrow> P (snd (m w))) \<Longrightarrow> keeps P m"
  by (simp add: keeps_def)

lemma keepsD: "keeps P m \<Longrightarrow> P w \<Longrightarrow> P (snd (m w))"
  by (simp add: keeps_def)

lemma keeps_ret: "keeps P (ret a)"
  by (simp add: keeps_def ret_def)

lemma keeps_throw: "keeps P (throw e)"
  by (simp add: keeps_def throw_def)

lemma keeps_suspend: "keeps P suspend"
  by (simp add: keeps_def suspend_def)

lemma keeps_then_do:
  assumes "keeps P m" and "\<And>a. keeps P (f a)"
  shows "keeps P (then_do m f)"
proof (rule keepsI)
  fix w
  assume "P w"
  with assms(1) have mid: "P (snd (m w))"
    by (rule keepsD)
  show "P (snd (then_do m f w))"
  proof (cases "m w")
    case (Pair r w')
    with mid have "P w'"
      by simp
    with assms(2) have "P (snd (f a w'))" for a
      by (rule keepsD)
    with Pair \<open>P w'\<close> show ?thesis
      by (cases r) (simp_all add: then_do_def)
  qed
qed

lemma keeps_try_catch:
  assumes "keeps P m" and "\<And>e. keeps P (h e)"
  shows "keeps P (try_catch m h)"
proof (rule keepsI)
  fix w
  assume "P w"
  with assms(1) have mid: "P (snd (m w))"
    by (rule keepsD)
  show "P (snd (try_catch m h w))"
  proof (cases "m w")
    case (Pair r w')
    with mid have "P w'"
      by simp
    with assms(2) have "P (snd (h e w'))" for e
      by (rule keepsD)
    with Pair \<open>P w'\<close> show ?thesis
      by (cases r) (simp_all add: try_catch_def)
  qed
qed

lemma keeps_if: "(c \<Longrightarrow> keeps P a) \<Longrightarrow> (\<not> c \<Longrightarrow> keeps P b) \<Longrightarrow> keeps P (if c then a else b)"
  by simp

lemma keeps_case_option:
  "(x = None \<Longrightarrow> keeps P a) \<Longrightarrow> (\<And>y. x = Some y \<Longrightarrow> keeps P (b y))
     \<Longrightarrow> keeps P (case x of None \<Rightarrow> a | Some y \<Rightarrow> b y)"
  by (cases x) simp_all

lemma keeps_case_prod:
  "(\<And>a b. x = (a, b) \<Longrightarrow> keeps P (f a b)) \<Longrightarrow> keeps P (case x of (a, b) \<Rightarrow> f a b)"
  by (cases x) simp

lemma keeps_let: "keeps P (f t) \<Longrightarrow> keeps P (let x = t in f x)"
  by simp

lemma keeps_emit: "logging P e \<Longrightarrow> keeps P (emit e)"
  by (simp add: keeps_def logging_def emit_def)

lemma keeps_ask: "ticking P \<Longrightarrow> keeps P (ask f)"
  by (simp add: keeps_def ticking_def ask_def)

lemma keeps_await: "ticking P \<Longrightarrow> keeps P (await f e)"
  unfolding await_def
  by (intro keeps_then_do keeps_ask) (simp_all add: keeps_ret keeps_throw keeps_suspend split: reply.splits)

lemma keeps_deliver: "ticking P \<Longrightarrow> logging P e \<Longrightarrow> keeps P (deliver E e)"
  unfolding deliver_def
  by (intro keeps_then_do keeps_emit keeps_await)

lemma keeps_delete_quietly: "ticking P \<Longrightarrow> logging P MessageDeleted \<Longrightarrow> keeps P (delete_quietly E)"
  unfolding delete_quietly_def
  by (intro keeps_try_catch keeps_deliver keeps_ret)

lemma keeps_awaitMessageComponent:
  "ticking P \<Longrightarrow> logging P (AwaitedComponent ids uid time)
     \<Longrightarrow> keeps P (awaitMessageComponent E ids uid time)"
  unfolding awaitMessageComponent_def
  by (intro keeps_then_do keeps_emit keeps_await keeps_case_option keeps_ret keeps_throw)

lemma keeps_awaitMessages:
  "ticking P \<Longrightarrow> logging P (AwaitedMessages uid time)
     \<Longrightarrow> keeps P (awaitMessages E uid accept time)"
  unfolding awaitMessages_def
  by (intro keeps_then_do keeps_emit keeps_await keeps_case_option keeps_ret keeps_throw)

lemma keeps_checkRateLimit: "ticking P \<Longrightarrow> keeps P (checkRateLimit E uid key)"
  unfolding checkRateLimit_def
  by (rule keeps_ask)

lemma keeps_handleError: "logging P (ErrorHandled e place) \<Longrightarrow> keeps P (handleError e channel place)"
  unfolding handleError_def
  by (rule keeps_emit)

lemma keeps_userWalletStates_get: "keeps P (userWalletStates_get uid)"
  by (simp add: keeps_def userWalletStates_get_def)

lemma keeps_userSettings_get: "keeps P (userSettings_get uid)"
  by (simp add: keeps_def userSettings_get_def)

lemma keeps_sendKaspa:
  "ticking P \<Longrightarrow> logging P (SendKaspa uid amount recipient net)
     \<Longrightarrow> keeps P (sendKaspa E uid amount recipient net)"
  unfolding sendKaspa_def
  by (intro keeps_then_do keeps_emit keeps_await)

lemma keeps_getBalance:
  "ticking P \<Longrightarrow> logging P (GetBalance uid net) \<Longrightarrow> keeps P (getBalance E uid net)"
  unfolding getBalance_def
  by (intro keeps_then_do keeps_emit keeps_await)

lemma keeps_getTransactionHistory:
  "ticking P \<Longrightarrow> logging P (GetTransactionHistory addr net)
     \<Longrightarrow> keeps P (getTransactionHistory E addr net)"
  unfolding getTransactionHistory_def
  by (intro keeps_then_do keeps_emit keeps_await keeps_ret)

lemma keeps_delete_each: "ticking P \<Longrightarrow> logging P MessageDeleted \<Longrightarrow> keeps P (delete_each E k)"
  by (induction k) (simp_all add: keeps_ret keeps_then_do keeps_deliver)

lemmas keeps_control =
  keeps_then_do keeps_try_catch keeps_if keeps_case_option keeps_case_prod keeps_let
  keeps_ret keeps_throw keeps_suspend

lemmas keeps_steps =
  keeps_emit keeps_await keeps_deliver keeps_delete_quietly keeps_awaitMessageComponent
  keeps_awaitMessages keeps_checkRateLimit keeps_handleError keeps_userWalletStates_get
  keeps_userSettings_get keeps_sendKaspa keeps_getBalance keeps_getTransactionHistory
  keeps_delete_each

subsection \<open>Sequencing\<close>

lemma then_do_assoc: "then_do (then_do m f) g = then_do m (\<lambda>a. then_do (f a) g)"
  by (auto simp: then_do_def fun_eq_iff split: prod.splits result.splits)

lemma then_do_ret: "then_do (ret a) f = f a"
  by (simp add: then_do_def ret_def fun_eq_iff)

lemma then_do_throw: "then_do (throw e) f = throw e"
  by (simp add: then_do_def throw_def fun_eq_iff)

lemma then_do_if: "then_do (if c then a else b) f = (if c then then_do a f else then_do b f)"
  by simp

lemma then_do_let: "then_do (let x = t in m x) f = (let x = t in then_do (m x) f)"
  by simp

lemma keeps_then_first_component:
  assumes "\<And>i. customId i \<in> set ids \<Longrightarrow> user i = uid \<Longrightarrow> keeps P (f i)"
  shows "keeps P (then_do (case first_component ids uid time arrivals of
                             None \<Rightarrow> throw CollectorError | Some i \<Rightarrow> ret i) f)"
proof (cases "first_component ids uid time arrivals")
  case None
  then show ?thesis
    by (simp add: then_do_throw keeps_throw)
next
  case (Some i)
  with first_component_accepts [OF Some] assms show ?thesis
    by (simp add: then_do_ret)
qed

lemma keeps_then_awaitMessageComponent:
  assumes "ticking P" and "logging P (AwaitedComponent ids uid time)"
    and "\<And>i. customId i \<in> set ids \<Longrightarrow> user i = uid \<Longrightarrow> keeps P (f i)"
  shows "keeps P (then_do (awaitMessageComponent E ids uid time) f)"
  unfolding awaitMessageComponent_def then_do_assoc
  by (intro keeps_then_do keeps_emit keeps_await keeps_then_first_component assms)

subsection \<open>The states that are assigned and the deadlines that are used\<close>

lemma keeps_case_WalletState:
  "keeps P a1 \<Longrightarrow> keeps P a2 \<Longrightarrow> keeps P a3 \<Longrightarrow> keeps P a4 \<Longrightarrow> keeps P a5 \<Longrightarrow> keeps P a6
     \<Longrightarrow> keeps P a7 \<Longrightarrow> keeps P a8
     \<Longrightarrow> keeps P (case s of IDLE \<Rightarrow> a1 | NETWORK_SELECTION \<Rightarrow> a2 | WALLET_OPTIONS \<Rightarrow> a3
                    | WALLET_ACTIONS \<Rightarrow> a4 | SENDING_KASPA \<Rightarrow> a5 | CHECKING_BALANCE \<Rightarrow> a6
                    | VIEWING_HISTORY \<Rightarrow> a7 | IMPORTING_WALLET \<Rightarrow> a8)"
  by (cases s) simp_all

lemma sane_ticking: "ticking sane"
  by (simp add: ticking_def sane_def)

lemma sane_logging: "emitted e \<Longrightarrow> logging sane e"
  by (simp add: logging_def sane_def)

lemma keeps_sane_set:
  "s \<noteq> CHECKING_BALANCE \<Longrightarrow> s \<noteq> VIEWING_HISTORY \<Longrightarrow> keeps sane (userWalletStates_set uid s)"
  by (simp add: keeps_def sane_def userWalletStates_set_def)

lemma keeps_sane_delete: "keeps sane (userWalletStates_delete uid)"
  by (simp add: keeps_def sane_def userWalletStates_delete_def)

lemma keeps_sane_settings: "keeps sane (userSettings_set uid s)"
  by (simp add: keeps_def sane_def userSettings_set_def)

lemmas sane_steps = sane_ticking sane_logging keeps_sane_set keeps_sane_delete keeps_sane_settings

lemma keeps_sane_record_wallet: "keeps sane (record_wallet E uid net wi)"
  unfolding record_wallet_def
  by (intro keeps_control keeps_ask keeps_sane_settings sane_ticking)

lemma keeps_sane_generateNewWallet: "keeps sane (generateNewWallet E uid net)"
  unfolding generateNewWallet_def
  by (intro keeps_control keeps_steps keeps_sane_record_wallet) ((simp_all add: sane_steps)?)

lemma keeps_sane_importWalletFromPrivateKey: "keeps sane (importWalletFromPrivateKey E key uid net)"
  unfolding importWalletFromPrivateKey_def
  by (intro keeps_control keeps_steps keeps_sane_record_wallet) ((simp_all add: sane_steps)?)

lemma keeps_sane_checkBalance: "keeps sane (checkBalance E channel uid)"
  unfolding checkBalance_def
  by (intro keeps_control keeps_steps) ((simp_all add: sane_steps)?)

lemma keeps_sane_showTransactionHistory: "keeps sane (showTransactionHistory E channel uid)"
  unfolding showTransactionHistory_def
  by (intro keeps_control keeps_steps) ((simp_all add: sane_steps)?)

lemma keeps_sane_showHelpMessage: "keeps sane (showHelpMessage E channel uid)"
  unfolding showHelpMessage_def
  by (intro keeps_control keeps_steps) ((simp_all add: sane_steps)?)

lemma keeps_sane_clearChatHistory: "keeps sane (clearChatHistory E channel uid)"
  unfolding clearChatHistory_def
  by (intro keeps_control keeps_steps) ((simp_all add: sane_steps)?)

lemma keeps_sane_confirm: "keeps sane (sendKaspaPrompt_confirm E uid amount recipient net)"
  unfolding sendKaspaPrompt_confirm_def
  by (intro keeps_control keeps_steps) ((simp_all add: sane_steps)?)

lemma keeps_sane_body: "keeps sane (sendKaspaPrompt_body E channel uid)"
  unfolding sendKaspaPrompt_body_def
  by (intro keeps_control keeps_steps keeps_sane_confirm) ((simp_all add: sane_steps)?)

lemma keeps_sane_flow: "keeps sane (sendKaspaPrompt_flow E channel uid)"
  unfolding sendKaspaPrompt_flow_def
  by (intro keeps_control keeps_steps keeps_sane_body keeps_sane_set) ((simp_all add: sane_steps)?)

lemma keeps_sane_select: "keeps sane (promptNetworkSelection_select E channel uid)"
  unfolding promptNetworkSelection_select_def
  by (intro keeps_control keeps_steps keeps_ask keeps_sane_set keeps_sane_settings)
     ((simp_all add: sane_steps)?)

lemmas keeps_sane_parts =
  keeps_sane_set keeps_sane_delete keeps_sane_generateNewWallet
  keeps_sane_importWalletFromPrivateKey keeps_sane_checkBalance keeps_sane_showTransactionHistory
  keeps_sane_showHelpMessage keeps_sane_clearChatHistory keeps_sane_flow keeps_sane_select

lemma keeps_sane_exec: "keeps sane (exec E n r)"
proof (induction n arbitrary: r)
  case 0
  show ?case
    by (simp add: keeps_suspend)
next
  case (Suc n)
  note IH = Suc.IH
  show ?case
  proof (cases r)
    case (PromptNetworkSelection channel uid)
    show ?thesis
      unfolding PromptNetworkSelection exec.simps
      by (intro keeps_control keeps_steps keeps_sane_parts IH) ((simp_all add: sane_steps)?)
  next
    case (PromptWalletOptions channel uid net)
    show ?thesis
      unfolding PromptWalletOptions exec.simps
      by (intro keeps_control keeps_steps keeps_sane_parts IH) ((simp_all add: sane_steps)?)
  next
    case (CreateNewWallet channel uid net)
    show ?thesis
      unfolding CreateNewWallet exec.simps
      by (intro keeps_control keeps_steps keeps_sane_parts IH) ((simp_all add: sane_steps)?)
  next
    case (ImportExistingWallet channel uid net)
    show ?thesis
      unfolding ImportExistingWallet exec.simps
      by (intro keeps_control keeps_steps keeps_sane_parts IH) ((simp_all add: sane_steps)?)
  next
    case (PromptWalletActions channel uid)
    show ?thesis
      unfolding PromptWalletActions exec.simps
      by (intro keeps_control keeps_steps keeps_sane_parts IH) ((simp_all add: sane_steps)?)
  next
    case (SendKaspaPrompt channel uid)
    show ?thesis
      unfolding SendKaspaPrompt exec.simps
      by (intro keeps_control keeps_steps keeps_sane_parts IH) ((simp_all add: sane_steps)?)
  qed
qed

lemma keeps_sane_handleWalletCommand: "keeps sane (handleWalletCommand E n message)"
  unfolding handleWalletCommand_def
  by (intro keeps_control keeps_steps keeps_case_WalletState keeps_sane_parts keeps_sane_exec)
     ((simp_all add: sane_steps)?)

lemma sane_initial: "sane initial"
  by (simp add: sane_def initial_def)

lemma reachable_sane: "reachable w \<Longrightarrow> sane w"
  by (induction rule: reachable.induct) (simp_all add: sane_initial keepsD [OF keeps_sane_handleWalletCommand])

subsection \<open>A recorded state past network selection has a network\<close>

lemma nk_ticking: "ticking (network_known S)"
  by (simp add: ticking_def network_known_def has_network_def)

lemma nk_logging: "logging (network_known S) e"
  by (simp add: logging_def network_known_def has_network_def)

lemma nk_subset: "network_known S' w \<Longrightarrow> S \<subseteq> S' \<Longrightarrow> network_known S w"
  by (auto simp: network_known_def)

lemma nk_insert: "network_known S w \<Longrightarrow> has_network w uid \<Longrightarrow> network_known (insert uid S) w"
  by (auto simp: network_known_def)

lemma keeps_nk_set:
  "uid \<in> S \<or> \<not> needs_network s \<Longrightarrow> keeps (network_known S) (userWalletStates_set uid s)"
  by (auto simp: keeps_def network_known_def has_network_def userWalletStates_set_def)

lemma keeps_nk_delete: "keeps (network_known S) (userWalletStates_delete uid)"
  by (auto simp: keeps_def network_known_def has_network_def userWalletStates_delete_def)

lemma keeps_nk_settings:
  "truthy (network s) \<Longrightarrow> keeps (network_known S) (userSettings_set uid s)"
  by (auto simp: keeps_def network_known_def has_network_def userSettings_set_def)

lemmas nk_steps = nk_ticking nk_logging keeps_nk_delete

lemma keeps_nk_record_wallet: "net \<noteq> [] \<Longrightarrow> keeps (network_known S) (record_wallet E uid net wi)"
  unfolding record_wallet_def
  by (intro keeps_control keeps_ask keeps_nk_settings nk_ticking) simp

lemma keeps_nk_generateNewWallet:
  "net \<noteq> [] \<Longrightarrow> keeps (network_known S) (generateNewWallet E uid net)"
  unfolding generateNewWallet_def
  by (intro keeps_control keeps_steps keeps_nk_record_wallet) ((simp_all add: nk_steps)?)

lemma keeps_nk_importWalletFromPrivateKey:
  "net \<noteq> [] \<Longrightarrow> keeps (network_known S) (importWalletFromPrivateKey E key uid net)"
  unfolding importWalletFromPrivateKey_def
  by (intro keeps_control keeps_steps keeps_nk_record_wallet) ((simp_all add: nk_steps)?)

lemma keeps_nk_checkBalance: "keeps (network_known S) (checkBalance E channel uid)"
  unfolding checkBalance_def
  by (intro keeps_control keeps_steps) ((simp_all add: nk_steps)?)

lemma keeps_nk_showTransactionHistory: "keeps (network_known S) (showTransactionHistory E channel uid)"
  unfolding showTransactionHistory_def
  by (intro keeps_control keeps_steps) ((simp_all add: nk_steps)?)

lemma keeps_nk_showHelpMessage: "keeps (network_known S) (showHelpMessage E channel uid)"
  unfolding showHelpMessage_def
  by (intro keeps_control keeps_steps) ((simp_all add: nk_steps)?)

lemma keeps_nk_clearChatHistory: "keeps (network_known S) (clearChatHistory E channel uid)"
  unfolding clearChatHistory_def
  by (intro keeps_control keeps_steps) ((simp_all add: nk_steps)?)

lemma keeps_nk_confirm: "keeps (network_known S) (sendKaspaPrompt_confirm E uid amount recipient net)"
  unfolding sendKaspaPrompt_confirm_def
  by (intro keeps_control keeps_steps) ((simp_all add: nk_steps)?)

lemma keeps_nk_body: "keeps (network_known S) (sendKaspaPrompt_body E channel uid)"
  unfolding sendKaspaPrompt_body_def
  by (intro keeps_control keeps_steps keeps_nk_confirm) ((simp_all add: nk_steps)?)

lemma keeps_nk_flow: "uid \<in> S \<Longrightarrow> keeps (network_known S) (sendKaspaPrompt_flow E channel uid)"
  unfolding sendKaspaPrompt_flow_def
  by (intro keeps_control keeps_steps keeps_nk_body keeps_nk_set) ((simp_all add: nk_steps)?)

lemma keeps_settings_then:
  assumes "truthy (network s)" and "\<And>a. keeps (network_known (insert uid S)) (f a)"
  shows "keeps (network_known S) (then_do (userSettings_set uid s) f)"
proof (rule keepsI)
  fix w
  assume nk: "network_known S w"
  let ?w1 = "w\<lparr>userSettings := (userSettings w)(uid \<mapsto> s), trace := trace w @ [SettingsSet uid s]\<rparr>"
  from nk assms(1) have "network_known (insert uid S) ?w1"
    by (auto simp: network_known_def has_network_def)
  with assms(2) have "network_known (insert uid S) (snd (f () ?w1))"
    by (rule keepsD)
  then have "network_known S (snd (f () ?w1))"
    by (rule nk_subset) auto
  then show "network_known S (snd (then_do (userSettings_set uid s) f w))"
    by (simp add: then_do_def userSettings_set_def)
qed

lemma keeps_select_then:
  assumes "\<And>net. net \<noteq> [] \<Longrightarrow> keeps (network_known (insert uid S)) (f net)"
  shows "keeps (network_known S) (then_do (promptNetworkSelection_select E channel uid) f)"
  unfolding promptNetworkSelection_select_def then_do_assoc then_do_let then_do_if then_do_throw
    then_do_ret
  apply (rule keeps_then_do, rule keeps_deliver, rule nk_ticking, rule nk_logging)
  apply (rule keeps_then_awaitMessageComponent, rule nk_ticking, rule nk_logging)
  apply (rule keeps_then_do, rule keeps_deliver, rule nk_ticking, rule nk_logging)
  apply (rule keeps_let, rule keeps_if, rule keeps_throw)
  apply (rule keeps_then_do, rule keeps_ask, rule nk_ticking)
  apply (rule keeps_settings_then, force)
  apply (rule keeps_then_do, rule keeps_delete_quietly, rule nk_ticking, rule nk_logging)
  apply (rule keeps_then_do, rule keeps_deliver, rule nk_ticking, rule nk_logging)
  apply (rule keeps_then_do, rule keeps_nk_set, simp)
  apply (rule assms, force)
  done

lemmas keeps_nk_parts =
  keeps_nk_delete keeps_nk_generateNewWallet keeps_nk_importWalletFromPrivateKey
  keeps_nk_checkBalance keeps_nk_showTransactionHistory keeps_nk_showHelpMessage
  keeps_nk_clearChatHistory keeps_nk_flow

lemma keeps_nk_exec: "entry r S \<Longrightarrow> keeps (network_known S) (exec E n r)"
proof (induction n arbitrary: r S)
  case 0
  show ?case
    by (simp add: keeps_suspend)
next
  case (Suc n)
  note IH = Suc.IH
  show ?case
  proof (cases r)
    case (PromptNetworkSelection channel uid)
    have core: "keeps (network_known S)
        (then_do (promptNetworkSelection_select E channel uid)
           (\<lambda>selectedNetwork. exec E n (PromptWalletOptions channel uid selectedNetwork)))"
      by (rule keeps_select_then) (rule IH, simp)
    show ?thesis
      unfolding PromptNetworkSelection exec.simps
      by (intro core keeps_try_catch keeps_then_do keeps_if keeps_throw keeps_checkRateLimit
          keeps_handleError keeps_nk_delete nk_ticking nk_logging)
  next
    case (PromptWalletOptions channel uid net)
    with Suc.prems have ok: "uid \<in> S" "net \<noteq> []"
      by simp_all
    show ?thesis
      unfolding PromptWalletOptions exec.simps
      by (intro keeps_control keeps_steps keeps_nk_parts IH) ((simp_all add: nk_steps ok)?)
  next
    case (CreateNewWallet channel uid net)
    with Suc.prems have ok: "uid \<in> S" "net \<noteq> []"
      by simp_all
    show ?thesis
      unfolding CreateNewWallet exec.simps
      by (intro keeps_control keeps_steps keeps_nk_parts keeps_nk_set IH) ((simp_all add: nk_steps ok)?)
  next
    case (ImportExistingWallet channel uid net)
    with Suc.prems have ok: "uid \<in> S" "net \<noteq> []"
      by simp_all
    show ?thesis
      unfolding ImportExistingWallet exec.simps
      by (intro keeps_control keeps_steps keeps_nk_parts keeps_nk_set IH) ((simp_all add: nk_steps ok)?)
  next
    case (PromptWalletActions channel uid)
    with Suc.prems have ok: "uid \<in> S"
      by simp
    show ?thesis
      unfolding PromptWalletActions exec.simps
      by (intro keeps_control keeps_steps keeps_nk_parts keeps_nk_set IH)
         ((simp_all add: nk_steps ok needs_network_def)?)
  next
    case (SendKaspaPrompt channel uid)
    with Suc.prems have ok: "uid \<in> S"
      by simp
    show ?thesis
      unfolding SendKaspaPrompt exec.simps
      by (intro keeps_control keeps_steps keeps_nk_parts keeps_nk_set IH) ((simp_all add: nk_steps ok)?)
  qed
qed

lemma nk_tick: "network_known S (w\<lparr>tick := t\<rparr>) = network_known S w"
  by (simp add: network_known_def has_network_def)

lemma nk_trace: "network_known S (w\<lparr>trace := t\<rparr>) = network_known S w"
  by (simp add: network_known_def has_network_def)

lemma nk_states_IDLE:
  "network_known S w \<Longrightarrow>
   network_known S (w\<lparr>userWalletStates := (userWalletStates w)(uid \<mapsto> IDLE)\<rparr>)"
  by (auto simp: network_known_def has_network_def needs_network_def)

lemma wp_exec_nk:
  assumes "entry r S" and "network_known S w"
    and "\<And>res w'. network_known S w' \<Longrightarrow> Q res w'"
  shows "wp (exec E n r) Q w"
proof -
  from keeps_nk_exec [OF assms(1)] assms(2) have "network_known S (snd (exec E n r w))"
    by (rule keepsD)
  then show ?thesis
    unfolding wp_def by (rule assms(3))
qed

lemma handleWalletCommand_nk:
  assumes nk: "network_known S w" and all: "\<forall>u. has_network w u \<longrightarrow> u \<in> S"
  shows "wp (handleWalletCommand E n message) (\<lambda>r w'. network_known S w') w"
proof -
  from nk have wa: "userWalletStates w u = Some WALLET_ACTIONS \<Longrightarrow> u \<in> S" for u
    using all by (auto simp: network_known_def needs_network_def)
  from all have wo: "userSettings w u = Some s \<Longrightarrow> network s = Some net \<Longrightarrow> net \<noteq> [] \<Longrightarrow> u \<in> S"
    for u s net
    by (auto simp: has_network_def)
  show ?thesis
    unfolding handleWalletCommand_def deliver_def handleError_def
    apply (simp add: wp_rules nk nk_tick nk_trace currentState_def
        split: WalletState.splits option.splits)
    apply (intro conjI impI allI wp_exec_nk [where S = S])
    apply (simp_all add: wp_rules nk nk_tick nk_trace nk_states_IDLE wa wo split: result.splits)
    apply (insert nk, auto simp: network_known_def has_network_def needs_network_def)
    done
qed

lemma nk_initial: "network_known {} initial"
  by (simp add: network_known_def initial_def)

lemma reachable_nk: "reachable w \<Longrightarrow> network_known {} w"
proof (induction rule: reachable.induct)
  case start
  show ?case
    by (rule nk_initial)
next
  case (dispatch w E n message)
  let ?S = "{u. has_network w u}"
  from dispatch.IH have "network_known ?S w"
    by (simp add: network_known_def)
  then have "wp (handleWalletCommand E n message) (\<lambda>r w'. network_known ?S w') w"
    by (rule handleWalletCommand_nk) simp
  then have "network_known ?S (snd (handleWalletCommand E n message w))"
    by (simp add: wp_def)
  then show ?case
    by (rule nk_subset) simp
qed

section \<open>Properties\<close>

lemma send_dialogue_answers:
  "delivery (send_dialogue a c) k = Resolved ()"
  "components (send_dialogue a c) k = Resolved [(1000, \<lparr>customId = c, user = ''alice''\<rparr>)]"
  "inbox (send_dialogue a c) k =
     Resolved [(1000, \<lparr>author = ''alice'', content = (if k = 1 then ''kaspa:bob'' else a), channelType = DM\<rparr>)]"
  "transaction (send_dialogue a c) k = Resolved ''tx-1''"
  "validateAddress (send_dialogue a c) s"
  "validateAmount (send_dialogue a c) s"
  "sanitizeInput (send_dialogue a c) s = s"
  by (simp_all add: send_dialogue_def typing_def clicking_def answering_def)

subsection \<open>The send flow\<close>

lemma flow_sends:
  "wp (sendKaspaPrompt_flow E channel uid)
     (\<lambda>r w'. sent w' = sent w \<or> confirmed E uid (Suc (Suc (Suc (Suc (Suc (tick w))))))) w"
  unfolding sendKaspaPrompt_flow_def sendKaspaPrompt_body_def sendKaspaPrompt_confirm_def step_defs
  by (simp add: wp_rules sent_def confirmed_def selection_def)

text \<open>
  C1. The flow asks for the address, the amount and the confirmation, so the confirmation
  wait is the sixth call of the flow to the outside, five after the first. Unless that wait
  resolves with \<^verbatim>\<open>confirm_send\<close> and the \<^verbatim>\<open>deferUpdate\<close> after it resolves (so on
  \<^verbatim>\<open>cancel_send\<close>, on a timeout, and on any failure of the interaction), the flow makes no
  call of \<^verbatim>\<open>sendKaspa\<close>: the calls recorded after the flow are those recorded before it.
\<close>

theorem sendKaspa_only_after_confirm:
  assumes "\<not> confirmed E uid (tick w + 5)"
  shows "sent (snd (sendKaspaPrompt_flow E channel uid w)) = sent w"
proof -
  from assms have "\<not> confirmed E uid (Suc (Suc (Suc (Suc (Suc (tick w))))))"
    by (simp add: eval_nat_numeral)
  with flow_sends [of E channel uid w] show ?thesis
    by (simp add: wp_def)
qed

theorem sendKaspa_only_after_confirm_witness:
  "\<not> confirmed (send_dialogue ''2'' ''cancel_send'') ''alice'' (tick wallet_open + 5)
   \<and> sent (snd (sendKaspaPrompt_flow (send_dialogue ''2'' ''cancel_send'') DM ''alice'' wallet_open))
       = sent wallet_open"
proof -
  have no: "\<not> confirmed (send_dialogue ''2'' ''cancel_send'') ''alice'' (tick wallet_open + 5)"
    by (simp add: confirmed_def selection_def first_component_def send_dialogue_answers)
  from no sendKaspa_only_after_confirm [OF no] show ?thesis
    by simp
qed

lemma flow_ends:
  assumes "responsive E"
  shows "wp (sendKaspaPrompt_flow E channel uid)
           (\<lambda>r w'. r = Returned () \<and> userWalletStates w' uid = Some WALLET_ACTIONS
              \<and> ((\<exists>a. entered E uid (Suc (tick w)) = Some a
                       \<and> \<not> validateAddress E (sanitizeInput E a))
                  \<longrightarrow> sent w' = sent w)) w"
  using assms
  unfolding sendKaspaPrompt_flow_def sendKaspaPrompt_body_def sendKaspaPrompt_confirm_def step_defs
  by (simp add: wp_rules sent_def entered_def responsive_def)

text \<open>
  C2. When no promise stays unresolved, the send flow returns with the user's state set to
  \<open>WALLET_ACTIONS\<close>, whatever happened in it; and when the address entered (the answer to
  the wait that is the second call of the flow) fails \<^verbatim>\<open>validateAddress\<close>, the flow makes
  no call of \<^verbatim>\<open>sendKaspa\<close>.
\<close>

theorem send_flow_ends_in_WALLET_ACTIONS:
  assumes "responsive E"
  shows "fst (sendKaspaPrompt_flow E channel uid w) = Returned ()
     \<and> userWalletStates (snd (sendKaspaPrompt_flow E channel uid w)) uid = Some WALLET_ACTIONS
     \<and> ((\<exists>a. entered E uid (tick w + 1) = Some a \<and> \<not> validateAddress E (sanitizeInput E a))
         \<longrightarrow> sent (snd (sendKaspaPrompt_flow E channel uid w)) = sent w)"
  using flow_ends [OF assms, of channel uid w]
  by (simp add: wp_def)

theorem send_flow_ends_in_WALLET_ACTIONS_witness:
  "responsive (send_dialogue ''2'' ''confirm_send''\<lparr>validateAddress := (\<lambda>s. False)\<rparr>)
   \<and> entered (send_dialogue ''2'' ''confirm_send''\<lparr>validateAddress := (\<lambda>s. False)\<rparr>) ''alice''
        (tick wallet_open + 1) = Some ''kaspa:bob''
   \<and> fst (sendKaspaPrompt_flow (send_dialogue ''2'' ''confirm_send''\<lparr>validateAddress := (\<lambda>s. False)\<rparr>)
          DM ''alice'' wallet_open) = Returned ()
   \<and> userWalletStates
        (snd (sendKaspaPrompt_flow (send_dialogue ''2'' ''confirm_send''\<lparr>validateAddress := (\<lambda>s. False)\<rparr>)
          DM ''alice'' wallet_open)) ''alice'' = Some WALLET_ACTIONS
   \<and> sent (snd (sendKaspaPrompt_flow (send_dialogue ''2'' ''confirm_send''\<lparr>validateAddress := (\<lambda>s. False)\<rparr>)
          DM ''alice'' wallet_open)) = sent wallet_open"
proof -
  let ?E = "send_dialogue ''2'' ''confirm_send''\<lparr>validateAddress := (\<lambda>s. False)\<rparr>"
  have r: "responsive ?E"
    by (simp add: responsive_def send_dialogue_def typing_def clicking_def answering_def)
  have e: "entered ?E ''alice'' (tick wallet_open + 1) = Some ''kaspa:bob''"
    by (simp add: entered_def first_message_def send_dialogue_def typing_def clicking_def
        answering_def wallet_open_def)
  from r e send_flow_ends_in_WALLET_ACTIONS [OF r, of DM "''alice''" wallet_open] show ?thesis
    by simp
qed

lemma minor_units_0_07: "minor_units ''0.07'' = None"
  by code_simp

lemma minor_units_1_5: "minor_units ''1.5'' = Some 150000000"
  by code_simp

text \<open>
  When the conversion to minor units succeeds, a confirmed send calls \<^verbatim>\<open>sendKaspa\<close> once,
  with the converted amount, the sanitized address and the network of the session.
\<close>

lemma confirmed_send_calls_once:
  assumes "userSettings w uid = Some s" and "network s = Some net" and "net \<noteq> []"
    and "\<forall>k. delivery E k = Resolved ()"
    and "entered E uid (Suc (tick w)) = Some a" and "validateAddress E (sanitizeInput E a)"
    and "entered E uid (Suc (Suc (Suc (tick w)))) = Some b" and "validateAmount E (sanitizeInput E b)"
    and "selection E [''confirm_send'', ''cancel_send''] uid 60000
           (Suc (Suc (Suc (Suc (Suc (tick w)))))) = Some ''confirm_send''"
    and "minor_units (sanitizeInput E b) = Some units"
  shows "sent (snd (sendKaspaPrompt_flow E channel uid w))
           = sent w @ [SendKaspa uid units (sanitizeInput E a) net]"
proof -
  from assms have "wp (sendKaspaPrompt_flow E channel uid)
      (\<lambda>r w'. sent w' = sent w @ [SendKaspa uid units (sanitizeInput E a) net]) w"
    unfolding sendKaspaPrompt_flow_def sendKaspaPrompt_body_def sendKaspaPrompt_confirm_def step_defs
    by (simp add: wp_rules sent_def entered_def selection_def split: reply.splits) auto
  then show ?thesis
    by (simp add: wp_def)
qed

text \<open>
  C3. A confirmed send of \<^verbatim>\<open>0.07\<close> KAS, with validators that accept the address and the
  amount. \<^verbatim>\<open>parseFloat('0.07') * 1e8\<close> is 7000000.000000001 in binary64, \<^verbatim>\<open>BigInt\<close>
  throws a RangeError inside the inner \<^verbatim>\<open>try\<close>, the user is told that the confirmation
  failed or timed out, and \<^verbatim>\<open>sendKaspa\<close> is not called: the run below records no call.
\<close>

theorem confirmed_send_of_0_07_calls_nothing:
  "confirmed (send_dialogue ''0.07'' ''confirm_send'') ''alice'' 5
   \<and> entered (send_dialogue ''0.07'' ''confirm_send'') ''alice'' 3 = Some ''0.07''
   \<and> validateAmount (send_dialogue ''0.07'' ''confirm_send'') ''0.07''
   \<and> sendKaspaPrompt_flow (send_dialogue ''0.07'' ''confirm_send'') DM ''alice'' wallet_open =
       (Returned (), wallet_open\<lparr>tick := 8, trace :=
          [StateSet ''alice'' SENDING_KASPA,
           Sent (''Please enter the recipient'' @ [CHR 0x27] @ ''s Kaspa address:''),
           AwaitedMessages ''alice'' 60000,
           Sent ''Please enter the amount of KAS to send:'',
           AwaitedMessages ''alice'' 60000,
           SentEmbed ''Confirm Transaction''
             [(''Amount'', ''0.07 KAS''), (''Recipient Address'', ''kaspa:bob'')]
             [(''confirm_send'', ''Confirm''), (''cancel_send'', ''Cancel'')],
           AwaitedComponent [''confirm_send'', ''cancel_send''] ''alice'' 60000,
           DeferredUpdate,
           Sent ''The confirmation interaction failed or timed out. Please try the transaction again.'',
           StateSet ''alice'' WALLET_ACTIONS]\<rparr>)"
proof -
  have "wp (sendKaspaPrompt_flow (send_dialogue ''0.07'' ''confirm_send'') DM ''alice'')
          (\<lambda>r w'. (r, w') = (Returned (), wallet_open\<lparr>tick := 8, trace :=
          [StateSet ''alice'' SENDING_KASPA,
           Sent (''Please enter the recipient'' @ [CHR 0x27] @ ''s Kaspa address:''),
           AwaitedMessages ''alice'' 60000,
           Sent ''Please enter the amount of KAS to send:'',
           AwaitedMessages ''alice'' 60000,
           SentEmbed ''Confirm Transaction''
             [(''Amount'', ''0.07 KAS''), (''Recipient Address'', ''kaspa:bob'')]
             [(''confirm_send'', ''Confirm''), (''cancel_send'', ''Cancel'')],
           AwaitedComponent [''confirm_send'', ''cancel_send''] ''alice'' 60000,
           DeferredUpdate,
           Sent ''The confirmation interaction failed or timed out. Please try the transaction again.'',
           StateSet ''alice'' WALLET_ACTIONS]\<rparr>)) wallet_open"
    unfolding sendKaspaPrompt_flow_def sendKaspaPrompt_body_def sendKaspaPrompt_confirm_def step_defs
    by (simp add: wp_rules send_dialogue_answers minor_units_0_07 first_component_def first_message_def wallet_open_def)
  then show ?thesis
    by (simp add: wp_def prod_eq_iff confirmed_def selection_def entered_def first_component_def
        first_message_def send_dialogue_answers)
qed

subsection \<open>The dispatcher\<close>

lemma dm_trigger_is_dropped:
  assumes "channelType message = DM"
    and "userWalletStates w (author message) \<in> {Some SENDING_KASPA, Some IMPORTING_WALLET}"
  shows "handleWalletCommand E n message w = (Returned (), w)"
proof -
  from assms have "wp (handleWalletCommand E n message) (\<lambda>r w'. (r, w') = (Returned (), w)) w"
    unfolding handleWalletCommand_def
    by (auto simp: wp_rules currentState_def)
  then show ?thesis
    by (simp add: wp_def prod_eq_iff)
qed

text \<open>
  C4. A trigger sent in a guild channel by a user whose state is \<open>SENDING_KASPA\<close>: the
  state is read only after the DM channel was opened and the message was answered, so the
  event is not dropped silently. The state and the session are left as they were.
\<close>

theorem guild_trigger_is_answered_mid_send:
  "handleWalletCommand answering 1 (trigger GuildText) mid_send =
     (Returned (), mid_send\<lparr>tick := 2, trace :=
        [DMCreated ''alice'',
         Replied (''I'' @ [CHR 0x27] @ ''ve sent you a DM to start your wallet session!'')]\<rparr>)"
proof -
  have "wp (handleWalletCommand answering 1 (trigger GuildText))
          (\<lambda>r w'. (r, w') = (Returned (), mid_send\<lparr>tick := 2, trace :=
        [DMCreated ''alice'',
         Replied (''I'' @ [CHR 0x27] @ ''ve sent you a DM to start your wallet session!'')]\<rparr>)) mid_send"
    unfolding handleWalletCommand_def step_defs
    by (simp add: wp_rules answering_def trigger_def mid_send_def wallet_open_def currentState_def)
  then show ?thesis
    by (simp add: wp_def prod_eq_iff)
qed

subsection \<open>Network selection\<close>

lemma exec_timeout:
  assumes "rateLimit E (tick w)" "delivery E (Suc (tick w)) = Resolved ()"
    "timed_out E [''Mainnet'', ''Testnet-10'', ''Testnet-11''] uid 300000 (Suc (Suc (tick w)))"
  shows "wp (exec E (Suc n) (PromptNetworkSelection channel uid))
           (\<lambda>r w'. r = Returned () \<and> userWalletStates w' uid = None) w"
  using assms
  unfolding exec.simps promptNetworkSelection_select_def step_defs
  by (simp add: wp_rules timed_out_def selection_def split: reply.splits)

text \<open>
  C6. When the rate limiter allows the selection, the prompt is delivered and the wait for
  the selection (the third call) ends with no accepted selection before the deadline,
  \<^verbatim>\<open>promptNetworkSelection\<close> returns with the user's entry removed from
  \<^verbatim>\<open>userWalletStates\<close>, so the dispatcher reads the state of the next event as \<open>IDLE\<close>.
\<close>

theorem network_selection_timeout_discards_state:
  assumes "rateLimit E (tick w)" and "delivery E (tick w + 1) = Resolved ()"
    and "timed_out E [''Mainnet'', ''Testnet-10'', ''Testnet-11''] uid 300000 (tick w + 2)"
  shows "fst (exec E (Suc n) (PromptNetworkSelection channel uid) w) = Returned ()
     \<and> userWalletStates (snd (exec E (Suc n) (PromptNetworkSelection channel uid) w)) uid = None
     \<and> currentState (userWalletStates (snd (exec E (Suc n) (PromptNetworkSelection channel uid) w)) uid)
         = IDLE"
proof -
  from assms have "wp (exec E (Suc n) (PromptNetworkSelection channel uid))
      (\<lambda>r w'. r = Returned () \<and> userWalletStates w' uid = None) w"
    by (intro exec_timeout) simp_all
  then show ?thesis
    by (simp add: wp_def currentState_def)
qed

theorem network_selection_timeout_discards_state_witness:
  "rateLimit answering (tick wallet_open) \<and> delivery answering (tick wallet_open + 1) = Resolved ()
   \<and> timed_out answering [''Mainnet'', ''Testnet-10'', ''Testnet-11''] ''alice'' 300000
        (tick wallet_open + 2)
   \<and> fst (exec answering (Suc 0) (PromptNetworkSelection DM ''alice'') wallet_open) = Returned ()
   \<and> userWalletStates (snd (exec answering (Suc 0) (PromptNetworkSelection DM ''alice'') wallet_open))
        ''alice'' = None
   \<and> currentState (userWalletStates
        (snd (exec answering (Suc 0) (PromptNetworkSelection DM ''alice'') wallet_open)) ''alice'') = IDLE"
proof -
  have a: "rateLimit answering (tick wallet_open)"
    and b: "delivery answering (tick wallet_open + 1) = Resolved ()"
    and c: "timed_out answering [''Mainnet'', ''Testnet-10'', ''Testnet-11''] ''alice'' 300000
              (tick wallet_open + 2)"
    by (simp_all add: answering_def timed_out_def selection_def first_component_def)
  from a b c network_selection_timeout_discards_state [OF a b c, of 0 DM] show ?thesis
    by blast
qed

subsection \<open>The first trigger\<close>

lemma trigger_prompt:
  assumes "userWalletStates w (author message) = None"
    and "\<forall>k. delivery E k = Resolved ()" and "\<forall>k. rateLimit E k"
    and "\<forall>k. components E k = Unresolved"
  shows "wp (handleWalletCommand E (Suc n) message)
     (\<lambda>r w'. r = Suspended
        \<and> w' = w\<lparr>tick := tick w + (if channelType message = DM then 4 else 6),
                 trace := trace w
                   @ (if channelType message = DM then []
                      else [DMCreated (author message),
                            Replied (''I'' @ [CHR 0x27] @ ''ve sent you a DM to start your wallet session!'')])
                   @ [Sent (''Welcome to your private Kat Wallet Session. Let'' @ [CHR 0x27]
                            @ ''s start by choosing which Network you'' @ [CHR 0x27] @ ''ll be using.''),
                      SentEmbed ''Network Selection'' []
                        [(''Mainnet'', ''Mainnet''), (''Testnet-10'', ''Testnet-10''),
                         (''Testnet-11'', ''Testnet-11'')],
                      AwaitedComponent [''Mainnet'', ''Testnet-10'', ''Testnet-11'']
                        (author message) 300000]\<rparr>) w"
  using assms
  unfolding handleWalletCommand_def exec.simps promptNetworkSelection_select_def step_defs
  by (simp add: wp_rules currentState_def)

text \<open>
  C7, as stated, fails: a user with no prior session sends the trigger in a DM and has not
  answered yet. The prompt with the three networks is rendered and the wait is open, but the
  user has no entry in \<^verbatim>\<open>userWalletStates\<close>: the state was not set to
  \<open>NETWORK_SELECTION\<close>.
\<close>

theorem first_trigger_leaves_no_state:
  "fst (handleWalletCommand nobody_answers (Suc 0) (trigger DM) initial) = Suspended
   \<and> last (trace (snd (handleWalletCommand nobody_answers (Suc 0) (trigger DM) initial)))
       = AwaitedComponent [''Mainnet'', ''Testnet-10'', ''Testnet-11''] ''alice'' 300000
   \<and> userWalletStates (snd (handleWalletCommand nobody_answers (Suc 0) (trigger DM) initial)) ''alice''
       \<noteq> Some NETWORK_SELECTION"
proof -
  have "wp (handleWalletCommand nobody_answers (Suc 0) (trigger DM))
     (\<lambda>r w'. r = Suspended
        \<and> last (trace w') = AwaitedComponent [''Mainnet'', ''Testnet-10'', ''Testnet-11''] ''alice'' 300000
        \<and> userWalletStates w' ''alice'' \<noteq> Some NETWORK_SELECTION) initial"
    unfolding handleWalletCommand_def exec.simps promptNetworkSelection_select_def step_defs
    by (simp add: wp_rules currentState_def nobody_answers_def answering_def trigger_def initial_def)
  then show ?thesis
    by (simp add: wp_def)
qed

text \<open>
  C7, amended. For a user with no entry in \<^verbatim>\<open>userWalletStates\<close> the dispatcher reads the
  state as \<open>IDLE\<close> and creates no entry. When the transport calls resolve and the rate limiter
  allows, it sends the welcome message (after opening the DM channel and answering the
  message when the trigger came from outside a DM), renders the network-selection prompt
  with exactly the three buttons Mainnet, Testnet-10 and Testnet-11, and waits 300 seconds
  for a selection; while the wait is open the two maps are what they were, so the state is
  not \<open>NETWORK_SELECTION\<close>. The wait resolves only with one of the three ids, from that user.
\<close>

theorem first_trigger_prompts_for_network:
  assumes "userWalletStates w (author message) = None"
    and "\<forall>k. delivery E k = Resolved ()" and "\<forall>k. rateLimit E k"
    and "\<forall>k. components E k = Unresolved"
  shows "handleWalletCommand E (Suc n) message w =
     (Suspended,
      w\<lparr>tick := tick w + (if channelType message = DM then 4 else 6),
        trace := trace w
          @ (if channelType message = DM then []
             else [DMCreated (author message),
                   Replied (''I'' @ [CHR 0x27] @ ''ve sent you a DM to start your wallet session!'')])
          @ [Sent (''Welcome to your private Kat Wallet Session. Let'' @ [CHR 0x27]
                   @ ''s start by choosing which Network you'' @ [CHR 0x27] @ ''ll be using.''),
             SentEmbed ''Network Selection'' []
               [(''Mainnet'', ''Mainnet''), (''Testnet-10'', ''Testnet-10''),
                (''Testnet-11'', ''Testnet-11'')],
             AwaitedComponent [''Mainnet'', ''Testnet-10'', ''Testnet-11'']
               (author message) 300000]\<rparr>)
   \<and> (\<forall>arrivals i.
         first_component [''Mainnet'', ''Testnet-10'', ''Testnet-11''] (author message) 300000 arrivals
           = Some i
         \<longrightarrow> customId i \<in> set [''Mainnet'', ''Testnet-10'', ''Testnet-11''] \<and> user i = author message)"
proof -
  from trigger_prompt [OF assms, of n]
  have "handleWalletCommand E (Suc n) message w =
     (Suspended,
      w\<lparr>tick := tick w + (if channelType message = DM then 4 else 6),
        trace := trace w
          @ (if channelType message = DM then []
             else [DMCreated (author message),
                   Replied (''I'' @ [CHR 0x27] @ ''ve sent you a DM to start your wallet session!'')])
          @ [Sent (''Welcome to your private Kat Wallet Session. Let'' @ [CHR 0x27]
                   @ ''s start by choosing which Network you'' @ [CHR 0x27] @ ''ll be using.''),
             SentEmbed ''Network Selection'' []
               [(''Mainnet'', ''Mainnet''), (''Testnet-10'', ''Testnet-10''),
                (''Testnet-11'', ''Testnet-11'')],
             AwaitedComponent [''Mainnet'', ''Testnet-10'', ''Testnet-11'']
               (author message) 300000]\<rparr>)"
    unfolding wp_def prod_eq_iff by simp
  moreover have "\<forall>arrivals i.
         first_component [''Mainnet'', ''Testnet-10'', ''Testnet-11''] (author message) 300000 arrivals
           = Some i
         \<longrightarrow> customId i \<in> set [''Mainnet'', ''Testnet-10'', ''Testnet-11''] \<and> user i = author message"
    using first_component_accepts by blast
  ultimately show ?thesis
    by (rule conjI)
qed

theorem first_trigger_prompts_for_network_witness:
  "userWalletStates initial (author (trigger GuildText)) = None
   \<and> (\<forall>k. delivery nobody_answers k = Resolved ()) \<and> (\<forall>k. rateLimit nobody_answers k)
   \<and> (\<forall>k. components nobody_answers k = Unresolved)
   \<and> handleWalletCommand nobody_answers (Suc 0) (trigger GuildText) initial =
      (Suspended,
       initial\<lparr>tick := 6,
         trace :=
           [DMCreated ''alice'',
            Replied (''I'' @ [CHR 0x27] @ ''ve sent you a DM to start your wallet session!''),
            Sent (''Welcome to your private Kat Wallet Session. Let'' @ [CHR 0x27]
                   @ ''s start by choosing which Network you'' @ [CHR 0x27] @ ''ll be using.''),
            SentEmbed ''Network Selection'' []
              [(''Mainnet'', ''Mainnet''), (''Testnet-10'', ''Testnet-10''),
               (''Testnet-11'', ''Testnet-11'')],
            AwaitedComponent [''Mainnet'', ''Testnet-10'', ''Testnet-11''] ''alice'' 300000]\<rparr>)"
proof -
  have a: "userWalletStates initial (author (trigger GuildText)) = None"
    by (simp add: initial_def)
  have b: "\<forall>k. delivery nobody_answers k = Resolved ()"
    and c: "\<forall>k. rateLimit nobody_answers k"
    and d: "\<forall>k. components nobody_answers k = Unresolved"
    by (simp_all add: nobody_answers_def answering_def)
  from a b c d first_trigger_prompts_for_network [OF a b c d, of 0] show ?thesis
    by (simp add: trigger_def initial_def)
qed

subsection \<open>The session after network selection\<close>

lemma select_returned:
  "wp (promptNetworkSelection_select E channel uid)
     (\<lambda>r w'. \<forall>net. r = Returned net \<longrightarrow>
        userSettings w' uid = Some \<lparr>network = Some net, address = None,
                                     lastActivity = clock E (Suc (Suc (Suc (tick w))))\<rparr>) w"
  unfolding promptNetworkSelection_select_def step_defs
  by (simp add: wp_rules)

lemma checkBalance_without_address:
  assumes "userSettings w uid = Some s" and "address s = None" and "rateLimit E (tick w)"
  shows "checkBalance E channel uid w =
     (Returned (), w\<lparr>tick := Suc (tick w),
        trace := trace w @ [ErrorHandled (AppError ''INVALID_WALLET'') ''checkBalance'']\<rparr>)"
proof -
  from assms have "wp (checkBalance E channel uid)
      (\<lambda>r w'. r = Returned () \<and> w' = w\<lparr>tick := Suc (tick w),
        trace := trace w @ [ErrorHandled (AppError ''INVALID_WALLET'') ''checkBalance'']\<rparr>) w"
    unfolding checkBalance_def step_defs
    by (simp add: wp_rules)
  then show ?thesis
    by (simp add: wp_def prod_eq_iff)
qed

lemma showTransactionHistory_without_address:
  assumes "userSettings w uid = Some s" and "address s = None" and "rateLimit E (tick w)"
  shows "showTransactionHistory E channel uid w =
     (Returned (), w\<lparr>tick := Suc (tick w),
        trace := trace w @ [ErrorHandled (AppError ''INVALID_WALLET'') ''showTransactionHistory'']\<rparr>)"
proof -
  from assms have "wp (showTransactionHistory E channel uid)
      (\<lambda>r w'. r = Returned () \<and> w' = w\<lparr>tick := Suc (tick w),
        trace := trace w @ [ErrorHandled (AppError ''INVALID_WALLET'') ''showTransactionHistory'']\<rparr>) w"
    unfolding showTransactionHistory_def step_defs
    by (simp add: wp_rules)
  then show ?thesis
    by (simp add: wp_def prod_eq_iff)
qed

lemma picking_mainnet:
  "fst (promptNetworkSelection_select (clicking ''alice'' ''Mainnet'' answering) DM ''alice'' wallet_open)
     = Returned ''Mainnet''"
proof -
  have "wp (promptNetworkSelection_select (clicking ''alice'' ''Mainnet'' answering) DM ''alice'')
          (\<lambda>r w'. r = Returned ''Mainnet'') wallet_open"
    unfolding promptNetworkSelection_select_def step_defs
    by (simp add: wp_rules clicking_def answering_def first_component_def)
  then show ?thesis
    by (simp add: wp_def)
qed

text \<open>
  C9. When network selection completes (the selection arrived, the session was written and
  the state was set to \<open>WALLET_OPTIONS\<close>), the user's session is the record of the chosen
  network and the time of the write, with no address, whatever it held before. On a world
  with that session a balance request and a history request that pass the rate limiter fail
  the address check: the error \<^verbatim>\<open>INVALID_WALLET\<close> is handled and nothing else is done.
\<close>

theorem selection_replaces_session:
  assumes "promptNetworkSelection_select E channel uid w = (Returned net, w')"
  shows "userSettings w' uid
           = Some \<lparr>network = Some net, address = None, lastActivity = clock E (tick w + 3)\<rparr>
     \<and> (\<forall>w2 :: world. userSettings w2 uid = userSettings w' uid \<longrightarrow> rateLimit E (tick w2) \<longrightarrow>
           checkBalance E channel uid w2 =
             (Returned (), w2\<lparr>tick := Suc (tick w2),
                trace := trace w2 @ [ErrorHandled (AppError ''INVALID_WALLET'') ''checkBalance'']\<rparr>)
           \<and> showTransactionHistory E channel uid w2 =
             (Returned (), w2\<lparr>tick := Suc (tick w2),
                trace := trace w2
                  @ [ErrorHandled (AppError ''INVALID_WALLET'') ''showTransactionHistory'']\<rparr>))"
proof -
  from select_returned [of E channel uid w] assms
  have session: "userSettings w' uid
      = Some \<lparr>network = Some net, address = None, lastActivity = clock E (tick w + 3)\<rparr>"
    by (simp add: wp_def eval_nat_numeral)
  show ?thesis
  proof (intro conjI allI impI)
    show "userSettings w' uid
      = Some \<lparr>network = Some net, address = None, lastActivity = clock E (tick w + 3)\<rparr>"
      by (rule session)
  next
    fix w2 :: world
    assume same: "userSettings w2 uid = userSettings w' uid" and ok: "rateLimit E (tick w2)"
    from same session have s: "userSettings w2 uid
      = Some \<lparr>network = Some net, address = None, lastActivity = clock E (tick w + 3)\<rparr>"
      by simp
    show "checkBalance E channel uid w2 =
             (Returned (), w2\<lparr>tick := Suc (tick w2),
                trace := trace w2 @ [ErrorHandled (AppError ''INVALID_WALLET'') ''checkBalance'']\<rparr>)"
      by (rule checkBalance_without_address [OF s _ ok]) simp
    show "showTransactionHistory E channel uid w2 =
             (Returned (), w2\<lparr>tick := Suc (tick w2),
                trace := trace w2
                  @ [ErrorHandled (AppError ''INVALID_WALLET'') ''showTransactionHistory'']\<rparr>)"
      by (rule showTransactionHistory_without_address [OF s _ ok]) simp
  qed
qed

theorem selection_replaces_session_witness:
  "promptNetworkSelection_select (clicking ''alice'' ''Mainnet'' answering) DM ''alice'' wallet_open
     = (Returned ''Mainnet'',
        snd (promptNetworkSelection_select (clicking ''alice'' ''Mainnet'' answering) DM ''alice''
               wallet_open))
   \<and> userSettings wallet_open ''alice''
       = Some \<lparr>network = Some ''Mainnet'', address = Some ''kaspa:alice'', lastActivity = 0\<rparr>
   \<and> userSettings
        (snd (promptNetworkSelection_select (clicking ''alice'' ''Mainnet'' answering) DM ''alice''
                wallet_open)) ''alice''
       = Some \<lparr>network = Some ''Mainnet'', address = None,
               lastActivity = clock (clicking ''alice'' ''Mainnet'' answering) (tick wallet_open + 3)\<rparr>"
proof -
  have run: "promptNetworkSelection_select (clicking ''alice'' ''Mainnet'' answering) DM ''alice''
        wallet_open
     = (Returned ''Mainnet'',
        snd (promptNetworkSelection_select (clicking ''alice'' ''Mainnet'' answering) DM ''alice''
               wallet_open))"
    using picking_mainnet by (simp add: prod_eq_iff)
  have before: "userSettings wallet_open ''alice''
       = Some \<lparr>network = Some ''Mainnet'', address = Some ''kaspa:alice'', lastActivity = 0\<rparr>"
    by (simp add: wallet_open_def)
  from run before selection_replaces_session [OF run] show ?thesis
    by blast
qed

subsection \<open>Reachable worlds\<close>

lemma first_dispatch_state:
  "userWalletStates (snd (handleWalletCommand picks_mainnet (Suc (Suc 0)) (trigger DM) initial)) ''alice''
     = Some WALLET_OPTIONS"
proof -
  have "wp (handleWalletCommand picks_mainnet (Suc (Suc 0)) (trigger DM))
          (\<lambda>r w'. userWalletStates w' ''alice'' = Some WALLET_OPTIONS) initial"
    unfolding handleWalletCommand_def exec.simps promptNetworkSelection_select_def step_defs
    by (simp add: wp_rules picks_mainnet_def answering_def trigger_def initial_def
        first_component_def currentState_def)
  then show ?thesis
    by (simp add: wp_def)
qed

text \<open>
  C5. In every world reached from the empty maps by dispatching events, a user whose
  recorded state is \<open>WALLET_OPTIONS\<close>, \<open>WALLET_ACTIONS\<close>, \<open>SENDING_KASPA\<close>,
  \<open>IMPORTING_WALLET\<close>, \<open>CHECKING_BALANCE\<close> or \<open>VIEWING_HISTORY\<close> has a session whose
  network is set (and not the empty string).
\<close>

theorem needed_network_is_set:
  assumes "reachable w" and "userWalletStates w uid = Some s" and "needs_network s"
  shows "has_network w uid"
proof -
  from assms(1) have "network_known {} w"
    by (rule reachable_nk)
  with assms(2,3) show ?thesis
    by (simp add: network_known_def)
qed

theorem needed_network_is_set_witness:
  "reachable (snd (handleWalletCommand picks_mainnet (Suc (Suc 0)) (trigger DM) initial))
   \<and> userWalletStates (snd (handleWalletCommand picks_mainnet (Suc (Suc 0)) (trigger DM) initial))
        ''alice'' = Some WALLET_OPTIONS
   \<and> needs_network WALLET_OPTIONS
   \<and> has_network (snd (handleWalletCommand picks_mainnet (Suc (Suc 0)) (trigger DM) initial)) ''alice''"
proof -
  have r: "reachable (snd (handleWalletCommand picks_mainnet (Suc (Suc 0)) (trigger DM) initial))"
    by (rule reachable.dispatch [OF reachable.start])
  have n: "needs_network WALLET_OPTIONS"
    by (simp add: needs_network_def)
  from r first_dispatch_state n needed_network_is_set [OF r first_dispatch_state n] show ?thesis
    by blast
qed

lemma emitted_deadline_ok: "emitted e \<Longrightarrow> deadline_ok e"
  by (cases e) (simp_all split: if_splits)

lemma first_dispatch_waits:
  "AwaitedComponent [''create'', ''import''] ''alice'' 300000
     \<in> set (trace (snd (handleWalletCommand picks_mainnet (Suc (Suc 0)) (trigger DM) initial)))"
proof -
  have "wp (handleWalletCommand picks_mainnet (Suc (Suc 0)) (trigger DM))
          (\<lambda>r w'. AwaitedComponent [''create'', ''import''] ''alice'' 300000 \<in> set (trace w')) initial"
    unfolding handleWalletCommand_def exec.simps promptNetworkSelection_select_def step_defs
    by (simp add: wp_rules picks_mainnet_def answering_def trigger_def initial_def
        first_component_def currentState_def)
  then show ?thesis
    by (simp add: wp_def)
qed

text \<open>
  C8, as stated, fails on the confirmation of a send: the wait for the
  \<^verbatim>\<open>confirm_send\<close> / \<^verbatim>\<open>cancel_send\<close> buttons is opened with a deadline of 60 seconds.
\<close>

theorem confirmation_wait_is_60_seconds:
  "AwaitedComponent [''confirm_send'', ''cancel_send''] ''alice'' 60000
     \<in> set (trace (snd (sendKaspaPrompt_flow (send_dialogue ''2'' ''cancel_send'') DM ''alice'' wallet_open)))"
proof -
  have "wp (sendKaspaPrompt_flow (send_dialogue ''2'' ''cancel_send'') DM ''alice'')
          (\<lambda>r w'. AwaitedComponent [''confirm_send'', ''cancel_send''] ''alice'' 60000
                     \<in> set (trace w')) wallet_open"
    unfolding sendKaspaPrompt_flow_def sendKaspaPrompt_body_def sendKaspaPrompt_confirm_def step_defs
    by (simp add: wp_rules send_dialogue_answers first_component_def first_message_def
        wallet_open_def)
  then show ?thesis
    by (simp add: wp_def)
qed

text \<open>
  C8, amended. In every world reached by dispatching events, every wait that was opened
  for a button selection has a deadline of 300 seconds, except the wait for the
  \<^verbatim>\<open>confirm_send\<close> / \<^verbatim>\<open>cancel_send\<close> buttons, which has 60 seconds; every wait for a
  message (recipient address, amount, private key) has 60 seconds.
\<close>

theorem waits_use_their_deadlines:
  assumes "reachable w" and "e \<in> set (trace w)"
  shows "deadline_ok e"
proof -
  from assms(1) have "sane w"
    by (rule reachable_sane)
  with assms(2) have "emitted e"
    by (simp add: sane_def list_all_iff)
  then show ?thesis
    by (rule emitted_deadline_ok)
qed

theorem waits_use_their_deadlines_witness:
  "reachable (snd (handleWalletCommand picks_mainnet (Suc (Suc 0)) (trigger DM) initial))
   \<and> AwaitedComponent [''create'', ''import''] ''alice'' 300000
       \<in> set (trace (snd (handleWalletCommand picks_mainnet (Suc (Suc 0)) (trigger DM) initial)))
   \<and> deadline_ok (AwaitedComponent [''create'', ''import''] ''alice'' 300000)"
proof -
  have r: "reachable (snd (handleWalletCommand picks_mainnet (Suc (Suc 0)) (trigger DM) initial))"
    by (rule reachable.dispatch [OF reachable.start])
  from r first_dispatch_waits waits_use_their_deadlines [OF r first_dispatch_waits] show ?thesis
    by blast
qed










end
